theory Spec2Isabelle
  imports Complex_Main
begin

section \<open>The TP-Link integration: values of the vendor SDK and of the host\<close>

text \<open>
  The integration (\<^verbatim>\<open>homeassistant/components/tplink/__init__.py\<close>) is glue between a
  vendor device SDK (\<^verbatim>\<open>kasa\<close>) and the host framework. Everything the SDK or the host
  computes is an input of the model: a function or a value the definitions take as a
  parameter. What \<^verbatim>\<open>__init__.py\<close> itself does is translated statement by statement.
\<close>

subsection \<open>Exceptions\<close>

text \<open>
  What a call into the vendor SDK can raise: its own \<^verbatim>\<open>SmartDeviceException\<close> (with a
  message), or any other exception class (\<^verbatim>\<open>except SmartDeviceException\<close> does not
  catch those).
\<close>

datatype sdk_exception = SmartDeviceException string | OtherException string

text \<open>
  What a function of the integration can raise: an exception of the SDK passing
  through, the host's \<^verbatim>\<open>UpdateFailed(ex)\<close> wrapping the SDK exception it was raised
  from, or Python's \<^verbatim>\<open>KeyError\<close> of a dictionary subscript.
\<close>

datatype py_exception = Sdk sdk_exception | UpdateFailed sdk_exception | KeyError string

subsection \<open>The vendor device\<close>

text \<open>
  \<^verbatim>\<open>emeter_realtime\<close> is an object with the attributes \<^verbatim>\<open>power\<close>, \<^verbatim>\<open>total\<close>,
  \<^verbatim>\<open>voltage\<close> and \<^verbatim>\<open>current\<close>. Readings are Python floats or \<^verbatim>\<open>None\<close>; the
  integration never computes with them, it only passes them on.
\<close>

record EmeterStatus =
  em_power :: "real option"
  em_total :: "real option"
  em_voltage :: "real option"
  em_current :: "real option"

text \<open>
  The attributes of a \<^verbatim>\<open>SmartDevice\<close> that the integration reads
  (\<open>dev_alias\<close> is the attribute \<^verbatim>\<open>alias\<close>).
\<close>

record SmartDevice =
  host :: string
  device_id :: string
  dev_alias :: string
  has_emeter :: bool
  is_bulb :: bool
  emeter_today :: "real option"
  emeter_realtime :: EmeterStatus

text \<open>
  \<^verbatim>\<open>await device.update(update_children=...)\<close> is the SDK's: given the flag and the
  device, it either raises or returns, and in both cases leaves the device in some state.
\<close>

type_synonym sdk_update = "bool \<Rightarrow> SmartDevice \<Rightarrow> sdk_exception option \<times> SmartDevice"

subsection \<open>Names of dictionary keys\<close>

text \<open>
  The keys of the dictionary that \<^verbatim>\<open>_async_update_data\<close> returns are string constants
  imported from \<^verbatim>\<open>.const\<close>, \<^verbatim>\<open>homeassistant.const\<close> and
  \<^verbatim>\<open>homeassistant.components.switch\<close>, none of which is part of the sources at hand.
  Their values are a parameter of the model.
\<close>

record attr_names =
  CONF_EMETER_PARAMS :: string
  ATTR_CURRENT_POWER_W :: string
  ATTR_TOTAL_ENERGY_KWH :: string
  ATTR_VOLTAGE :: string
  ATTR_CURRENT_A :: string
  ATTR_TODAY_ENERGY_KWH :: string

definition emeter_attrs :: "attr_names \<Rightarrow> string list" where
  "emeter_attrs K =
     [ATTR_CURRENT_POWER_W K, ATTR_TOTAL_ENERGY_KWH K, ATTR_VOLTAGE K, ATTR_CURRENT_A K,
      ATTR_TODAY_ENERGY_KWH K]"

section \<open>TPLinkDataUpdateCoordinator\<close>

text \<open>
  The fields the class sets: \<^verbatim>\<open>device\<close>, \<^verbatim>\<open>update_children\<close>, and, through the
  host's constructor, \<^verbatim>\<open>name\<close> and \<^verbatim>\<open>update_interval\<close> (in seconds).
\<close>

record coordinator =
  device :: SmartDevice
  update_children :: bool
  name :: string
  update_interval :: nat

definition TPLinkDataUpdateCoordinator :: "SmartDevice \<Rightarrow> coordinator" where
  "TPLinkDataUpdateCoordinator dev =
     \<lparr>device = dev, update_children = True, name = dev_alias dev, update_interval = 10\<rparr>"

type_synonym emeter_params = "string \<rightharpoonup> real option"
type_synonym coordinator_data = "string \<rightharpoonup> emeter_params"

text \<open>
  Lines 199 to 204: today's consumption as reported, and when it is not reported,
  \<^verbatim>\<open>None\<close> for a bulb and \<^verbatim>\<open>0.0\<close> otherwise.
\<close>

definition consumption_today :: "SmartDevice \<Rightarrow> real option" where
  "consumption_today dev =
     (case emeter_today dev of
        Some emeter_today' \<Rightarrow> Some emeter_today'
      | None \<Rightarrow> (if is_bulb dev then None else Some 0))"

text \<open>
  \<^verbatim>\<open>_async_update_data\<close>. The result is what the method returns or raises, paired with
  the coordinator as the call leaves it. A dictionary literal stores its items from left
  to right, a later item replacing an earlier one under the same key.
\<close>

definition async_update_data ::
  "attr_names \<Rightarrow> sdk_update \<Rightarrow> coordinator \<Rightarrow> (py_exception + coordinator_data) \<times> coordinator" where
  "async_update_data K update self =
     (case update (update_children self) (device self) of
        (Some ex, dev) \<Rightarrow>
          (case ex of
             SmartDeviceException m \<Rightarrow> (Inl (UpdateFailed ex), self\<lparr>device := dev\<rparr>)
           | OtherException m \<Rightarrow> (Inl (Sdk ex), self\<lparr>device := dev\<rparr>))
      | (None, dev) \<Rightarrow>
          (let self = self\<lparr>device := dev, update_children := True\<rparr>;
               self = self\<lparr>name := dev_alias (device self)\<rparr>
           in if \<not> has_emeter (device self) then (Inr Map.empty, self)
              else
                (let emeter_readings = emeter_realtime (device self)
                 in (Inr [CONF_EMETER_PARAMS K \<mapsto>
                            [ATTR_CURRENT_POWER_W K \<mapsto> em_power emeter_readings,
                             ATTR_TOTAL_ENERGY_KWH K \<mapsto> em_total emeter_readings,
                             ATTR_VOLTAGE K \<mapsto> em_voltage emeter_readings,
                             ATTR_CURRENT_A K \<mapsto> em_current emeter_readings,
                             ATTR_TODAY_ENERGY_KWH K \<mapsto> consumption_today (device self)]],
                     self))))"

section \<open>Setting up and unloading a config entry\<close>

subsection \<open>Host data\<close>

definition DOMAIN :: string where
  "DOMAIN = ''tplink''"

text \<open>
  Configuration data (the validated YAML section, or \<^verbatim>\<open>entry.data\<close>) is a dictionary
  from the \<^verbatim>\<open>CONF_*\<close> keys to values, written as an association list. The key
  constants are declared outside the sources at hand; they are taken as distinct names.
\<close>

datatype conf_key =
  CONF_LIGHT | CONF_SWITCH | CONF_STRIP | CONF_DIMMER | CONF_DISCOVERY | CONF_HOST

datatype conf_value = VBool bool | VStr string | VHosts "string list"

type_synonym config = "(conf_key \<times> conf_value) list"

text \<open>Python's truth value of a configuration value.\<close>

fun truthy :: "conf_value \<Rightarrow> bool" where
  "truthy (VBool b) = b"
| "truthy (VStr s) = (s \<noteq> [])"
| "truthy (VHosts hs) = (hs \<noteq> [])"

text \<open>
  A config entry of the host: its identifier (opaque, generated by the host; a natural
  number here), its unique identifier, and its data (\<open>entry_data\<close> is \<^verbatim>\<open>entry.data\<close>).
\<close>

record ConfigEntry =
  entry_id :: nat
  unique_id :: "string option"
  entry_data :: config

text \<open>
  A record of the host's device registry (\<open>dev_id\<close> is \<^verbatim>\<open>id\<close>, \<open>dev_config_entries\<close>
  is \<^verbatim>\<open>config_entries\<close>), and one of its entity registry.
\<close>

record DeviceEntry =
  dev_id :: string
  dev_connections :: "(string \<times> string) list"
  dev_config_entries :: "nat set"

record RegistryEntry =
  reg_entity_id :: string
  reg_unique_id :: string
  reg_device_id :: "string option"
  reg_config_entry_id :: "nat option"

record SmartDevices =
  lights :: "SmartDevice list"
  switches :: "SmartDevice list"

text \<open>
  \<^verbatim>\<open>hass.data[DOMAIN]\<close> is a dictionary under the keys \<^verbatim>\<open>ATTR_CONFIG\<close>,
  \<^verbatim>\<open>CONF_LIGHT\<close>, \<^verbatim>\<open>CONF_SWITCH\<close>, \<^verbatim>\<open>UNAVAILABLE_DEVICES\<close> and
  \<^verbatim>\<open>COORDINATORS\<close>, each holding a value of its own type: one optional field for
  each key, \<open>None\<close> when the key is absent. The configuration stored under
  \<^verbatim>\<open>ATTR_CONFIG\<close> may itself be Python's \<^verbatim>\<open>None\<close>.
\<close>

record domain_data =
  attr_config :: "config option option"
  conf_light :: "SmartDevice list option"
  conf_switch :: "SmartDevice list option"
  unavailable_devices :: "SmartDevice list option"
  coordinators :: "(string \<rightharpoonup> coordinator) option"

text \<open>The empty dictionary: \<^verbatim>\<open>{}\<close>, and what \<^verbatim>\<open>clear()\<close> leaves.\<close>

definition empty_data :: domain_data where
  "empty_data =
     \<lparr>attr_config = None, conf_light = None, conf_switch = None,
      unavailable_devices = None, coordinators = None\<rparr>"

text \<open>
  The state of the host that the integration reads and writes: \<^verbatim>\<open>hass.data\<close>, the
  store of config entries, the two registries, the flows started with the import source,
  the entries whose platform setup was handed to the host, the clock and the callbacks
  scheduled for later (the time each is due, and the config entry it is about).
\<close>

record hass =
  data :: "string \<rightharpoonup> domain_data"
  config_entries :: "ConfigEntry list"
  device_registry :: "DeviceEntry list"
  entity_registry :: "RegistryEntry list"
  import_flows :: "string list"
  setup_platforms :: "nat list"
  now :: nat
  call_later :: "(nat \<times> nat) list"

text \<open>
  What the setup calls and does not define: \<^verbatim>\<open>get_static_devices\<close> and
  \<^verbatim>\<open>async_discover_devices\<close> of \<^verbatim>\<open>.common\<close>, and the host's
  \<^verbatim>\<open>coordinator.async_refresh()\<close>, which may raise and leaves the coordinator in some
  state.
\<close>

record env =
  get_static_devices :: "config \<Rightarrow> py_exception + SmartDevices"
  async_discover_devices :: "SmartDevices \<Rightarrow> nat \<Rightarrow> py_exception + SmartDevices"
  async_refresh :: "coordinator \<Rightarrow> py_exception option \<times> coordinator"

text \<open>
  Two helpers of the host: the devices of the registry that reference a config entry, and
  the replacement of an entry's data in the store.
\<close>

definition async_entries_for_config_entry :: "DeviceEntry list \<Rightarrow> nat \<Rightarrow> DeviceEntry list" where
  "async_entries_for_config_entry registry config_entry_id =
     filter (\<lambda>d. config_entry_id \<in> dev_config_entries d) registry"

definition async_update_entry :: "ConfigEntry list \<Rightarrow> ConfigEntry \<Rightarrow> config \<Rightarrow> ConfigEntry list" where
  "async_update_entry entries entry data' =
     map (\<lambda>e. if entry_id e = entry_id entry then e\<lparr>entry_data := data'\<rparr> else e) entries"

subsection \<open>async_setup\<close>

text \<open>
  \<^verbatim>\<open>conf = config.get(DOMAIN)\<close>; the domain's dictionary is created holding only
  \<^verbatim>\<open>ATTR_CONFIG\<close>; a flow with the import source is started when there is a
  configuration; the result is \<^verbatim>\<open>True\<close>.
\<close>

definition async_setup :: "hass \<Rightarrow> (string \<rightharpoonup> config) \<Rightarrow> bool \<times> hass" where
  "async_setup hass config =
     (let conf = config DOMAIN;
          hass = hass\<lparr>data := (data hass)(DOMAIN \<mapsto> empty_data\<lparr>attr_config := Some conf\<rparr>)\<rparr>;
          hass = (if conf \<noteq> None then hass\<lparr>import_flows := import_flows hass @ [DOMAIN]\<rparr>
                  else hass)
      in (True, hass))"

subsection \<open>async_setup_entry\<close>

text \<open>
  Lines 86 to 90: the configuration the setup works with, and the store of entries after
  \<^verbatim>\<open>async_update_entry\<close> when the YAML configuration replaces the entry's data.
\<close>

definition select_config_data :: "domain_data \<Rightarrow> ConfigEntry \<Rightarrow> config option" where
  "select_config_data hass_data entry =
     (let config_data = (case attr_config hass_data of None \<Rightarrow> None | Some conf \<Rightarrow> conf)
      in if config_data = None \<and> entry_data entry \<noteq> [] then Some (entry_data entry)
         else config_data)"

definition update_entry_from_config :: "domain_data \<Rightarrow> ConfigEntry \<Rightarrow> hass \<Rightarrow> hass" where
  "update_entry_from_config hass_data entry hass =
     (let config_data = (case attr_config hass_data of None \<Rightarrow> None | Some conf \<Rightarrow> conf)
      in if config_data = None \<and> entry_data entry \<noteq> [] then hass
         else (case config_data of
                 None \<Rightarrow> hass
               | Some conf \<Rightarrow>
                   hass\<lparr>config_entries := async_update_entry (config_entries hass) entry conf\<rparr>))"

text \<open>
  Lines 104 to 110: the static devices, \<^verbatim>\<open>SmartDevices()\<close> (no device) when there is
  no configuration.
\<close>

definition static_devices :: "env \<Rightarrow> config option \<Rightarrow> py_exception + SmartDevices" where
  "static_devices E config_data =
     (case config_data of
        None \<Rightarrow> Inr \<lparr>lights = [], switches = []\<rparr>
      | Some conf \<Rightarrow> get_static_devices E conf)"

text \<open>
  Lines 112 to 119: discovery runs when there is no configuration or when the value
  under \<^verbatim>\<open>CONF_DISCOVERY\<close> is true; the subscript raises \<^verbatim>\<open>KeyError\<close> with the key,
  the string \<^verbatim>\<open>discovery\<close>, when the configuration has no such key. Without discovery
  nothing is added.
\<close>

definition discovered_devices ::
  "env \<Rightarrow> config option \<Rightarrow> SmartDevices \<Rightarrow> nat \<Rightarrow> py_exception + SmartDevices" where
  "discovered_devices E config_data static device_count =
     (case config_data of
        None \<Rightarrow> async_discover_devices E static device_count
      | Some conf \<Rightarrow>
          (case map_of conf CONF_DISCOVERY of
             None \<Rightarrow> Inl (KeyError ''discovery'')
           | Some v \<Rightarrow>
               if truthy v then async_discover_devices E static device_count
               else Inr \<lparr>lights = [], switches = []\<rparr>))"

text \<open>
  Lines 136 to 148, the loop over \<^verbatim>\<open>switches + lights\<close>. The coordinator is stored
  under the device's identifier before it is refreshed, and the dictionary holds the
  object, so it holds the coordinator as the refresh leaves it. A
  \<^verbatim>\<open>SmartDeviceException\<close> is caught and the loop goes on; any other exception leaves
  the loop and the function.
\<close>

fun prepare_coordinators ::
  "(coordinator \<Rightarrow> py_exception option \<times> coordinator) \<Rightarrow> SmartDevice list \<Rightarrow>
   (string \<rightharpoonup> coordinator) \<Rightarrow> py_exception option \<times> (string \<rightharpoonup> coordinator)" where
  "prepare_coordinators refresh [] coordinators' = (None, coordinators')"
| "prepare_coordinators refresh (dev # rest) coordinators' =
     (let coordinator = TPLinkDataUpdateCoordinator dev;
          coordinators' = coordinators'(device_id dev \<mapsto> snd (refresh coordinator))
      in case fst (refresh coordinator) of
           None \<Rightarrow> prepare_coordinators refresh rest coordinators'
         | Some (Sdk (SmartDeviceException m)) \<Rightarrow>
             prepare_coordinators refresh rest coordinators'
         | Some ex \<Rightarrow> (Some ex, coordinators'))"

text \<open>Writing the domain's dictionary back into \<^verbatim>\<open>hass.data\<close>.\<close>

definition put_data :: "hass \<Rightarrow> domain_data \<Rightarrow> hass" where
  "put_data hass hass_data = hass\<lparr>data := (data hass)(DOMAIN \<mapsto> hass_data)\<rparr>"

text \<open>
  The whole function. \<^verbatim>\<open>lights\<close> and \<^verbatim>\<open>switches\<close> are the lists stored in the
  domain's dictionary, so extending them extends what the dictionary holds; the same for
  \<^verbatim>\<open>coordinators\<close>. Each exit returns the state as it is at that point.
\<close>

definition async_setup_entry :: "env \<Rightarrow> hass \<Rightarrow> ConfigEntry \<Rightarrow> (py_exception + bool) \<times> hass" where
  "async_setup_entry E hass entry =
     (case data hass DOMAIN of
        None \<Rightarrow> (Inl (KeyError DOMAIN), hass)
      | Some hass_data \<Rightarrow>
          (let config_data = select_config_data hass_data entry;
               hass = update_entry_from_config hass_data entry hass;
               device_count =
                 length (async_entries_for_config_entry (device_registry hass) (entry_id entry));
               hass_data = hass_data\<lparr>conf_light := Some [], conf_switch := Some [],
                                     unavailable_devices := Some []\<rparr>
           in case static_devices E config_data of
                Inl ex \<Rightarrow> (Inl ex, put_data hass hass_data)
              | Inr static \<Rightarrow>
                  (let lights' = (if config_data = None then [] else lights static);
                       switches' = (if config_data = None then [] else switches static);
                       hass_data = hass_data\<lparr>conf_light := Some lights',
                                             conf_switch := Some switches'\<rparr>
                   in case discovered_devices E config_data static device_count of
                        Inl ex \<Rightarrow> (Inl ex, put_data hass hass_data)
                      | Inr discovered \<Rightarrow>
                          (let lights' = lights' @ lights discovered;
                               switches' = switches' @ switches discovered;
                               hass_data = hass_data\<lparr>conf_light := Some lights',
                                                     conf_switch := Some switches'\<rparr>
                           in case prepare_coordinators (async_refresh E) (switches' @ lights')
                                     Map.empty of
                                (Some ex, coordinators') \<Rightarrow>
                                  (Inl ex,
                                   put_data hass (hass_data\<lparr>coordinators := Some coordinators'\<rparr>))
                              | (None, coordinators') \<Rightarrow>
                                  (let hass =
                                         put_data hass
                                           (hass_data\<lparr>coordinators := Some coordinators'\<rparr>);
                                       hass = hass\<lparr>setup_platforms :=
                                                     setup_platforms hass @ [entry_id entry]\<rparr>
                                   in (Inr True, hass))))))"

subsection \<open>async_unload_entry\<close>

text \<open>
  \<open>unload_ok\<close> is what the host's \<^verbatim>\<open>async_unload_platforms\<close> answers. The subscript
  \<^verbatim>\<open>hass.data[DOMAIN]\<close> raises \<^verbatim>\<open>KeyError\<close> when the domain has no dictionary.
\<close>

definition async_unload_entry :: "bool \<Rightarrow> hass \<Rightarrow> (py_exception + bool) \<times> hass" where
  "async_unload_entry unload_ok hass =
     (case data hass DOMAIN of
        None \<Rightarrow> (Inl (KeyError DOMAIN), hass)
      | Some hass_data \<Rightarrow>
          (if unload_ok then (Inr unload_ok, put_data hass empty_data)
           else (Inr unload_ok, hass)))"

subsection \<open>Names for the statements about the setup\<close>

text \<open>
  What the \<^verbatim>\<open>try\<close> of the loop lets through: a refresh that returns, or one that raises
  \<^verbatim>\<open>SmartDeviceException\<close>.
\<close>

definition caught :: "py_exception option \<Rightarrow> bool" where
  "caught raised = (case raised of None \<Rightarrow> True | Some (Sdk (SmartDeviceException m)) \<Rightarrow> True | Some ex \<Rightarrow> False)"

text \<open>
  The list the loop runs over, \<^verbatim>\<open>switches + lights\<close>, each of the two lists being the
  static devices followed by the discovered ones.
\<close>

definition setup_devices :: "SmartDevices \<Rightarrow> SmartDevices \<Rightarrow> SmartDevice list" where
  "setup_devices static discovered =
     (switches static @ switches discovered) @ (lights static @ lights discovered)"

text \<open>
  Of the devices of a list, the one whose coordinator a given identifier ends with: the
  last device of the list with that identifier, a later assignment to a dictionary key
  replacing an earlier one.
\<close>

definition last_with_id :: "SmartDevice list \<Rightarrow> string \<Rightarrow> SmartDevice" where
  "last_with_id devs k = last (filter (\<lambda>d. device_id d = k) devs)"

section \<open>The migration of the legacy config entry\<close>

text \<open>
  The module \<^verbatim>\<open>homeassistant/components/tplink/migration.py\<close> is not among the
  sources at hand: only its test, \<^verbatim>\<open>tests/components/tplink/test_migration.py\<close>, is,
  and \<^verbatim>\<open>__init__.py\<close> as given does not call it. The definitions of this section are
  therefore written from the specification (section 3, the data model), and, where the
  specification is silent, from what the test sets up and observes.
\<close>

text \<open>
  Modelled from the spec: \<^verbatim>\<open>dr.CONNECTION_NETWORK_MAC\<close>, the host's name for the kind of
  connection that is a MAC address; the test builds its device record with it. Only its
  being one fixed name matters.
\<close>

definition CONNECTION_NETWORK_MAC :: string where
  "CONNECTION_NETWORK_MAC = ''mac''"

text \<open>
  Modelled from the spec: the legacy entry of \<^verbatim>\<open>migration.py\<close>, "a legacy single config
  entry (unique identifier = integration domain, no host field)".
\<close>

definition is_legacy_entry :: "ConfigEntry \<Rightarrow> bool" where
  "is_legacy_entry entry \<longleftrightarrow>
     unique_id entry = Some DOMAIN \<and> map_of (entry_data entry) CONF_HOST = None"

text \<open>
  Modelled from the spec: the per-device entry that \<^verbatim>\<open>migration.py\<close> and the first-time
  setup create, "a target per-device config entry (unique identifier = device MAC address,
  host field = device IP)".
\<close>

definition device_config_entry :: "nat \<Rightarrow> string \<Rightarrow> string \<Rightarrow> ConfigEntry" where
  "device_config_entry new_id mac ip =
     \<lparr>entry_id = new_id, unique_id = Some mac, entry_data = [(CONF_HOST, VStr ip)]\<rparr>"

text \<open>
  Modelled from the spec: the identifier the host gives a new config entry. The host
  generates it; here it is a number above every identifier in the store.
\<close>

definition new_entry_id :: "ConfigEntry list \<Rightarrow> nat" where
  "new_entry_id entries = Suc (fold max (map entry_id entries) 0)"

text \<open>
  Modelled from the spec: the creation of per-device entries, missing with
  \<^verbatim>\<open>migration.py\<close> and the config flow: "per-device entries created during migration or
  first-time setup". A discovered device, given by its MAC address and its IP address,
  gets an entry unless one with its MAC address as unique identifier exists (the test
  after a downgrade starts with such an entry).
\<close>

definition ensure_device_entry :: "string \<times> string \<Rightarrow> ConfigEntry list \<Rightarrow> ConfigEntry list" where
  "ensure_device_entry discovered entries =
     (case find (\<lambda>e. unique_id e = Some (fst discovered)) entries of
        Some existing \<Rightarrow> entries
      | None \<Rightarrow>
          entries @ [device_config_entry (new_entry_id entries) (fst discovered) (snd discovered)])"

definition ensure_device_entries ::
  "(string \<times> string) list \<Rightarrow> ConfigEntry list \<Rightarrow> ConfigEntry list" where
  "ensure_device_entries discovered entries = fold ensure_device_entry discovered entries"

text \<open>
  Modelled from the spec: "that device's new per-device config entry", the entry of the
  store whose unique identifier is the device's MAC address, by its identifier.
\<close>

definition entry_for :: "ConfigEntry list \<Rightarrow> string \<Rightarrow> nat option" where
  "entry_for entries mac = map_option entry_id (find (\<lambda>e. unique_id e = Some mac) entries)"

text \<open>
  Modelled from the spec: the physical devices a device record "logically belongs to":
  those whose MAC address is among the record's MAC connections. A physical device is
  given to the setup by its MAC address and its IP address.
\<close>

definition device_macs :: "DeviceEntry \<Rightarrow> string list" where
  "device_macs dev = map snd (filter (\<lambda>c. fst c = CONNECTION_NETWORK_MAC) (dev_connections dev))"

definition discovered_macs :: "string list \<Rightarrow> DeviceEntry \<Rightarrow> string list" where
  "discovered_macs macs dev = filter (\<lambda>mac. mac \<in> set macs) (device_macs dev)"

text \<open>
  Modelled from the spec: the reassignment of a device record by \<^verbatim>\<open>migration.py\<close>,
  "every device/entity record that logically belongs to one physical device must reference
  that device's new per-device config entry, not the old shared entry". A record that
  references the legacy entry and belongs to a physical device references, afterwards, the
  per-device entry of each device it belongs to and nothing else: the test's record, on
  the legacy entry before, is on exactly the one new entry after (lines 68 and 199).
\<close>

definition migrate_device :: "ConfigEntry list \<Rightarrow> string list \<Rightarrow> nat \<Rightarrow> DeviceEntry \<Rightarrow> DeviceEntry" where
  "migrate_device entries macs legacy_entry_id dev =
     (if legacy_entry_id \<in> dev_config_entries dev then
        (let new_ids = List.map_filter (entry_for entries) (discovered_macs macs dev)
         in if new_ids = [] then dev else dev\<lparr>dev_config_entries := set new_ids\<rparr>)
      else dev)"

text \<open>
  Modelled from the spec: the reassignment of an entity record by \<^verbatim>\<open>migration.py\<close>,
  with "entities whose identifier does not parse as a recognized device-scoped pattern are
  left untouched". The pattern is not given by the specification: \<open>parse\<close>, which
  gives the MAC address a unique identifier is scoped to, if any, is a parameter. An
  identifier is recognized when it parses to the address of a discovered device.
\<close>

definition migrate_entity ::
  "(string \<Rightarrow> string option) \<Rightarrow> ConfigEntry list \<Rightarrow> string list \<Rightarrow> nat \<Rightarrow>
   RegistryEntry \<Rightarrow> RegistryEntry" where
  "migrate_entity parse entries macs legacy_entry_id entity =
     (if reg_config_entry_id entity = Some legacy_entry_id then
        (case parse (reg_unique_id entity) of
           None \<Rightarrow> entity
         | Some mac \<Rightarrow>
             if mac \<in> set macs then
               (case entry_for entries mac of
                  None \<Rightarrow> entity
                | Some new_id \<Rightarrow> entity\<lparr>reg_config_entry_id := Some new_id\<rparr>)
             else entity)
      else entity)"

text \<open>
  Modelled from the spec: the migration of \<^verbatim>\<open>migration.py\<close>, "a one-time config-entry
  migration that merges a legacy single config entry into per-device entries, reassigns
  device/entity ownership, and schedules deferred cleanup". \<open>CLEANUP_DELAY\<close> is the
  constant of that name of the missing module, in seconds, a parameter here.
\<close>

definition migrate_legacy_entry ::
  "(string \<Rightarrow> string option) \<Rightarrow> nat \<Rightarrow> nat \<Rightarrow> (string \<times> string) list \<Rightarrow> hass \<Rightarrow> hass" where
  "migrate_legacy_entry parse CLEANUP_DELAY legacy_entry_id discovered hass =
     (let entries = ensure_device_entries discovered (config_entries hass);
          macs = map fst discovered
      in hass\<lparr>config_entries := entries,
              device_registry :=
                map (migrate_device entries macs legacy_entry_id) (device_registry hass),
              entity_registry :=
                map (migrate_entity parse entries macs legacy_entry_id) (entity_registry hass),
              call_later := call_later hass @ [(now hass + CLEANUP_DELAY, legacy_entry_id)]\<rparr>)"

text \<open>
  Modelled from the spec: what the setup does with the discovered devices, the missing
  caller of the migration. With a legacy entry in the store it migrates; without one it is
  the first-time setup, which only creates the per-device entries.
\<close>

definition setup_discovered ::
  "(string \<Rightarrow> string option) \<Rightarrow> nat \<Rightarrow> (string \<times> string) list \<Rightarrow> hass \<Rightarrow> hass" where
  "setup_discovered parse CLEANUP_DELAY discovered hass =
     (case find is_legacy_entry (config_entries hass) of
        None \<Rightarrow> hass\<lparr>config_entries := ensure_device_entries discovered (config_entries hass)\<rparr>
      | Some legacy_entry \<Rightarrow>
          migrate_legacy_entry parse CLEANUP_DELAY (entry_id legacy_entry) discovered hass)"

text \<open>
  Modelled from the spec: the deferred cleanup of \<^verbatim>\<open>migration.py\<close>, "legacy entry's removal
  is deferred for a fixed delay after migration". The specification states no condition;
  the test does: after the delay the legacy entry is gone when every entity was moved
  (lines 73 to 84) and still there when entities were left on it (lines 207 to 218). So
  the entry is removed when no entity record references it any more.
\<close>

definition cleanup_legacy_entry :: "nat \<Rightarrow> hass \<Rightarrow> hass" where
  "cleanup_legacy_entry legacy_entry_id hass =
     (if filter (\<lambda>e. reg_config_entry_id e = Some legacy_entry_id) (entity_registry hass) = []
      then hass\<lparr>config_entries :=
                  filter (\<lambda>e. entry_id e \<noteq> legacy_entry_id) (config_entries hass)\<rparr>
      else hass)"

text \<open>
  Modelled from the spec: \<^verbatim>\<open>async_fire_time_changed\<close>, the test's way to let time pass: the
  clock is set and the callbacks that are due run, in the order they were scheduled.
\<close>

definition async_fire_time_changed :: "nat \<Rightarrow> hass \<Rightarrow> hass" where
  "async_fire_time_changed t hass =
     (let due = filter (\<lambda>c. fst c \<le> t) (call_later hass);
          hass = hass\<lparr>now := t, call_later := filter (\<lambda>c. \<not> fst c \<le> t) (call_later hass)\<rparr>
      in fold (\<lambda>c. cleanup_legacy_entry (snd c)) due hass)"

section \<open>Concrete devices and states\<close>

text \<open>
  The names the host gives the keys, two devices with an energy meter that report no
  consumption for today (a plug and a bulb), an SDK whose update succeeds, and one
  whose update fails.
\<close>

definition ha_names :: attr_names where
  "ha_names =
     \<lparr>CONF_EMETER_PARAMS = ''emeter_params'', ATTR_CURRENT_POWER_W = ''current_power_w'',
      ATTR_TOTAL_ENERGY_KWH = ''total_energy_kwh'', ATTR_VOLTAGE = ''voltage'',
      ATTR_CURRENT_A = ''current_a'', ATTR_TODAY_ENERGY_KWH = ''today_energy_kwh''\<rparr>"

definition plug :: SmartDevice where
  "plug =
     \<lparr>host = ''127.0.0.1'', device_id = ''aa:bb:cc:dd:ee:ff'', dev_alias = ''My Plug'',
      has_emeter = True, is_bulb = False, emeter_today = None,
      emeter_realtime =
        \<lparr>em_power = Some 5, em_total = Some 30, em_voltage = Some 121, em_current = Some 1\<rparr>\<rparr>"

definition bulb :: SmartDevice where
  "bulb = plug\<lparr>host := ''127.0.0.2'', device_id := ''11:22:33:44:55:66'',
               dev_alias := ''My Bulb'', is_bulb := True\<rparr>"

definition update_ok :: sdk_update where
  "update_ok update_children' dev = (None, dev)"

definition update_unreachable :: sdk_update where
  "update_unreachable update_children' dev = (Some (SmartDeviceException ''unreachable''), dev)"

text \<open>A host with nothing in it, and the host after \<open>async_setup\<close> without YAML.\<close>

definition hass_empty :: hass where
  "hass_empty =
     \<lparr>data = Map.empty, config_entries = [], device_registry = [], entity_registry = [],
      import_flows = [], setup_platforms = [], now = 0, call_later = []\<rparr>"

definition hass_started :: hass where
  "hass_started = snd (async_setup hass_empty Map.empty)"

text \<open>
  The legacy config entry, a discovery that finds the plug and the bulb with every
  refresh succeeding, and the same discovery with the plug unreachable.
\<close>

definition entry_legacy :: ConfigEntry where
  "entry_legacy = \<lparr>entry_id = 1, unique_id = Some DOMAIN, entry_data = []\<rparr>"

definition env_online :: env where
  "env_online =
     \<lparr>get_static_devices = (\<lambda>conf. Inr \<lparr>lights = [], switches = []\<rparr>),
      async_discover_devices = (\<lambda>static device_count. Inr \<lparr>lights = [bulb], switches = [plug]\<rparr>),
      async_refresh = (\<lambda>coordinator. (None, coordinator))\<rparr>"

definition env_unreachable :: env where
  "env_unreachable =
     env_online\<lparr>async_refresh :=
       (\<lambda>coordinator.
          if device_id (device coordinator) = device_id plug
          then (Some (Sdk (SmartDeviceException ''unreachable'')), coordinator)
          else (None, coordinator))\<rparr>"

text \<open>
  A discovery that finds the same device identifier twice, once among the switches and
  once among the lights, and a first refresh of the plug that fails with an exception
  which is not a \<^verbatim>\<open>SmartDeviceException\<close>.
\<close>

definition plug_twin :: SmartDevice where
  "plug_twin = plug\<lparr>host := ''127.0.0.3'', dev_alias := ''My Plug again''\<rparr>"

definition env_twin :: env where
  "env_twin =
     env_online\<lparr>async_discover_devices :=
       (\<lambda>static device_count. Inr \<lparr>lights = [plug_twin], switches = [plug]\<rparr>)\<rparr>"

definition env_broken :: env where
  "env_broken =
     env_online\<lparr>async_refresh :=
       (\<lambda>coordinator.
          if device_id (device coordinator) = device_id plug
          then (Some (Sdk (OtherException ''timeout'')), coordinator)
          else (None, coordinator))\<rparr>"

text \<open>
  The registries of the migration test: a device record with the plug's MAC address, the
  light and the power sensor of that device, an entity of an unknown device, and an entity
  whose unique identifier is no address at all; all of them on the legacy entry. As the
  pattern of unique identifiers, an address of 17 characters followed by anything. A
  cleanup delay of 60 seconds stands for \<^verbatim>\<open>CLEANUP_DELAY\<close>.
\<close>

definition mac_prefix :: "string \<Rightarrow> string option" where
  "mac_prefix unique_id' = (if length unique_id' < 17 then None else Some (take 17 unique_id'))"

definition registry_device :: DeviceEntry where
  "registry_device =
     \<lparr>dev_id = ''device-1'', dev_connections = [(CONNECTION_NETWORK_MAC, ''aa:bb:cc:dd:ee:ff'')],
      dev_config_entries = {1}\<rparr>"

definition light_entity :: RegistryEntry where
  "light_entity =
     \<lparr>reg_entity_id = ''light.my_plug'', reg_unique_id = ''aa:bb:cc:dd:ee:ff'',
      reg_device_id = Some ''device-1'', reg_config_entry_id = Some 1\<rparr>"

definition power_sensor_entity :: RegistryEntry where
  "power_sensor_entity =
     light_entity\<lparr>reg_entity_id := ''sensor.my_plug'',
                  reg_unique_id := ''aa:bb:cc:dd:ee:ff_sensor''\<rparr>"

definition ignored_entity :: RegistryEntry where
  "ignored_entity =
     light_entity\<lparr>reg_entity_id := ''sensor.my_plug_2'',
                  reg_unique_id := ''00:00:00:00:00:00_sensor''\<rparr>"

definition garbage_entity :: RegistryEntry where
  "garbage_entity =
     light_entity\<lparr>reg_entity_id := ''sensor.my_plug_3'', reg_unique_id := ''garbage''\<rparr>"

definition hass_legacy :: hass where
  "hass_legacy =
     hass_started\<lparr>config_entries := [entry_legacy], device_registry := [registry_device],
                  entity_registry := [light_entity, power_sensor_entity]\<rparr>"

definition hass_legacy_others :: hass where
  "hass_legacy_others =
     hass_legacy\<lparr>entity_registry :=
       [light_entity, power_sensor_entity, ignored_entity, garbage_entity]\<rparr>"

definition discovered_plug :: "(string \<times> string) list" where
  "discovered_plug = [(''aa:bb:cc:dd:ee:ff'', ''127.0.0.1'')]"

section \<open>The coordinator's update\<close>

text \<open>
  C4. \<^verbatim>\<open>_async_update_data\<close> raises \<^verbatim>\<open>UpdateFailed(ex)\<close> exactly when the SDK's
  update raised the \<^verbatim>\<open>SmartDeviceException\<close> \<open>ex\<close>: a communication failure of the
  SDK is surfaced as \<^verbatim>\<open>UpdateFailed\<close> wrapping that exception, and nothing else is.
  The update is tried once; nothing in the method retries.
\<close>

theorem update_failed_iff:
  "fst (async_update_data K update self) = Inl (UpdateFailed ex) \<longleftrightarrow>
     (\<exists>m. ex = SmartDeviceException m \<and>
          fst (update (update_children self) (device self)) = Some (SmartDeviceException m))"
  by (auto simp: async_update_data_def Let_def
      split: prod.splits option.splits sdk_exception.splits)

theorem update_failed_iff_witness:
  "fst (async_update_data ha_names update_unreachable (TPLinkDataUpdateCoordinator plug)) =
     Inl (UpdateFailed (SmartDeviceException ''unreachable'')) \<and>
   fst (async_update_data ha_names update_ok (TPLinkDataUpdateCoordinator plug)) \<noteq>
     Inl (UpdateFailed (SmartDeviceException ''unreachable''))"
  using update_failed_iff [of ha_names update_unreachable "TPLinkDataUpdateCoordinator plug"
      "SmartDeviceException ''unreachable''"]
    update_failed_iff [of ha_names update_ok "TPLinkDataUpdateCoordinator plug"
      "SmartDeviceException ''unreachable''"]
  by (simp add: update_unreachable_def update_ok_def)

text \<open>
  C5, as amended. When the update succeeds, a device without an energy meter gives the
  empty dictionary; a device with one gives a dictionary with the single key
  \<^verbatim>\<open>CONF_EMETER_PARAMS\<close>, whose value has exactly the five keys for power, total energy,
  voltage, current and today's energy (the key names being distinct). Power, total
  energy, voltage and current are the attributes of \<^verbatim>\<open>emeter_realtime\<close>. Today's energy
  is not: it is what \<^verbatim>\<open>emeter_today\<close> reports, and when that is \<^verbatim>\<open>None\<close>, \<^verbatim>\<open>None\<close> for
  a bulb and \<^verbatim>\<open>0.0\<close> for any other device.
\<close>

theorem update_data_shape:
  assumes "update (update_children self) (device self) = (None, dev)"
    and "distinct (emeter_attrs K)"
  shows "(\<not> has_emeter dev \<longrightarrow> fst (async_update_data K update self) = Inr Map.empty) \<and>
         (has_emeter dev \<longrightarrow>
            (\<exists>data params. fst (async_update_data K update self) = Inr data \<and>
               dom data = {CONF_EMETER_PARAMS K} \<and>
               data (CONF_EMETER_PARAMS K) = Some params \<and>
               dom params = set (emeter_attrs K) \<and> card (dom params) = 5 \<and>
               params (ATTR_CURRENT_POWER_W K) = Some (em_power (emeter_realtime dev)) \<and>
               params (ATTR_TOTAL_ENERGY_KWH K) = Some (em_total (emeter_realtime dev)) \<and>
               params (ATTR_VOLTAGE K) = Some (em_voltage (emeter_realtime dev)) \<and>
               params (ATTR_CURRENT_A K) = Some (em_current (emeter_realtime dev)) \<and>
               params (ATTR_TODAY_ENERGY_KWH K) =
                 Some (case emeter_today dev of
                         Some reported \<Rightarrow> Some reported
                       | None \<Rightarrow> (if is_bulb dev then None else Some 0))))"
proof -
  have c: "card (set (emeter_attrs K)) = 5"
    using assms(2) distinct_card[of "emeter_attrs K"] by (simp add: emeter_attrs_def)
  show ?thesis
    using assms c
    by (auto simp: async_update_data_def Let_def emeter_attrs_def consumption_today_def)
qed

theorem update_data_shape_witness:
  "fst (async_update_data ha_names update_ok
          (TPLinkDataUpdateCoordinator (plug\<lparr>has_emeter := False\<rparr>))) = Inr Map.empty \<and>
   (\<exists>data params.
     fst (async_update_data ha_names update_ok (TPLinkDataUpdateCoordinator bulb)) = Inr data \<and>
     dom data = {''emeter_params''} \<and> data ''emeter_params'' = Some params \<and>
     card (dom params) = 5 \<and> params ''current_power_w'' = Some (Some 5) \<and>
     params ''total_energy_kwh'' = Some (Some 30) \<and> params ''voltage'' = Some (Some 121) \<and>
     params ''current_a'' = Some (Some 1) \<and> params ''today_energy_kwh'' = Some None)"
proof -
  have ok: "\<And>d. update_ok (update_children (TPLinkDataUpdateCoordinator d))
              (device (TPLinkDataUpdateCoordinator d)) = (None, d)"
    by (simp add: update_ok_def TPLinkDataUpdateCoordinator_def)
  have h2: "distinct (emeter_attrs ha_names)"
    by (simp add: emeter_attrs_def ha_names_def)
  have h3: "has_emeter bulb" "\<not> has_emeter (plug\<lparr>has_emeter := False\<rparr>)"
    by (simp_all add: bulb_def plug_def)
  from update_data_shape [where update = update_ok and K = ha_names, OF ok h2,
      of "plug\<lparr>has_emeter := False\<rparr>"] h3(2)
  have a: "fst (async_update_data ha_names update_ok
          (TPLinkDataUpdateCoordinator (plug\<lparr>has_emeter := False\<rparr>))) = Inr Map.empty"
    by blast
  from update_data_shape [where update = update_ok and K = ha_names, OF ok h2, of bulb] h3(1)
  have b: "\<exists>data params.
     fst (async_update_data ha_names update_ok (TPLinkDataUpdateCoordinator bulb)) = Inr data \<and>
     dom data = {''emeter_params''} \<and> data ''emeter_params'' = Some params \<and>
     card (dom params) = 5 \<and> params ''current_power_w'' = Some (Some 5) \<and>
     params ''total_energy_kwh'' = Some (Some 30) \<and> params ''voltage'' = Some (Some 121) \<and>
     params ''current_a'' = Some (Some 1) \<and> params ''today_energy_kwh'' = Some None"
    by (auto simp: ha_names_def bulb_def plug_def)
  from a b show ?thesis by blast
qed

text \<open>
  The claim as stated has all five values taken from the realtime readings. The plug
  reports the readings 5, 30, 121 and 1 and no consumption for today: the value for
  today's energy is \<^verbatim>\<open>0.0\<close>, which is none of its readings; and with the same realtime
  readings and a consumption of 7 reported for today the value is 7.
\<close>

theorem today_energy_not_realtime_counterexample:
  "has_emeter plug \<and> emeter_today plug = None \<and>
   emeter_realtime plug =
     \<lparr>em_power = Some 5, em_total = Some 30, em_voltage = Some 121, em_current = Some 1\<rparr> \<and>
   fst (async_update_data ha_names update_ok (TPLinkDataUpdateCoordinator plug)) =
     Inr [''emeter_params'' \<mapsto>
            [''current_power_w'' \<mapsto> Some 5, ''total_energy_kwh'' \<mapsto> Some 30,
             ''voltage'' \<mapsto> Some 121, ''current_a'' \<mapsto> Some 1,
             ''today_energy_kwh'' \<mapsto> Some 0]] \<and>
   emeter_realtime (plug\<lparr>emeter_today := Some 7\<rparr>) = emeter_realtime plug \<and>
   fst (async_update_data ha_names update_ok
          (TPLinkDataUpdateCoordinator (plug\<lparr>emeter_today := Some 7\<rparr>))) =
     Inr [''emeter_params'' \<mapsto>
            [''current_power_w'' \<mapsto> Some 5, ''total_energy_kwh'' \<mapsto> Some 30,
             ''voltage'' \<mapsto> Some 121, ''current_a'' \<mapsto> Some 1,
             ''today_energy_kwh'' \<mapsto> Some 7]] \<and>
   fst (async_update_data ha_names update_ok (TPLinkDataUpdateCoordinator plug)) \<noteq>
   fst (async_update_data ha_names update_ok
          (TPLinkDataUpdateCoordinator (plug\<lparr>emeter_today := Some 7\<rparr>)))"
  by (simp add: async_update_data_def Let_def update_ok_def TPLinkDataUpdateCoordinator_def
      plug_def ha_names_def consumption_today_def fun_eq_iff)

text \<open>
  C9. For a device with an energy meter, the value under the key for today's energy is
  \<^verbatim>\<open>None\<close> for a bulb and \<^verbatim>\<open>0.0\<close> for any other device when the device reports no
  consumption for today, and the reported value, unchanged, when it reports one.
\<close>

theorem today_energy:
  assumes "update (update_children self) (device self) = (None, dev)"
    and "has_emeter dev"
  shows "\<exists>data params. fst (async_update_data K update self) = Inr data \<and>
           data (CONF_EMETER_PARAMS K) = Some params \<and>
           params (ATTR_TODAY_ENERGY_KWH K) =
             Some (case emeter_today dev of
                     None \<Rightarrow> (if is_bulb dev then None else Some 0)
                   | Some reported \<Rightarrow> Some reported)"
  using assms by (simp add: async_update_data_def Let_def consumption_today_def)

theorem today_energy_witness:
  "(\<exists>data params.
      fst (async_update_data ha_names update_ok (TPLinkDataUpdateCoordinator bulb)) = Inr data \<and>
      data ''emeter_params'' = Some params \<and> params ''today_energy_kwh'' = Some None) \<and>
   (\<exists>data params.
      fst (async_update_data ha_names update_ok (TPLinkDataUpdateCoordinator plug)) = Inr data \<and>
      data ''emeter_params'' = Some params \<and> params ''today_energy_kwh'' = Some (Some 0)) \<and>
   (\<exists>data params.
      fst (async_update_data ha_names update_ok
             (TPLinkDataUpdateCoordinator (bulb\<lparr>emeter_today := Some 7\<rparr>))) = Inr data \<and>
      data ''emeter_params'' = Some params \<and> params ''today_energy_kwh'' = Some (Some 7))"
proof -
  have ok: "\<And>d. update_ok (update_children (TPLinkDataUpdateCoordinator d))
              (device (TPLinkDataUpdateCoordinator d)) = (None, d)"
    by (simp add: update_ok_def TPLinkDataUpdateCoordinator_def)
  have a: "has_emeter bulb" "has_emeter plug" "has_emeter (bulb\<lparr>emeter_today := Some 7\<rparr>)"
    by (simp_all add: bulb_def plug_def)
  from today_energy [where update = update_ok and K = ha_names, OF ok a(1)]
    today_energy [where update = update_ok and K = ha_names, OF ok a(2)]
    today_energy [where update = update_ok and K = ha_names, OF ok a(3)]
  show ?thesis
    by (simp add: ha_names_def bulb_def plug_def)
qed

section \<open>Unloading\<close>

text \<open>
  C10. Once the domain has its dictionary, \<open>async_unload_entry\<close> returns what the host
  answered for the platforms; it leaves the dictionary empty when the answer is true,
  and leaves the whole state as it was, returning false, when the answer is false.
\<close>

theorem unload_entry:
  assumes "data hass DOMAIN = Some hass_data"
  shows "fst (async_unload_entry unload_ok hass) = Inr unload_ok \<and>
         (unload_ok \<longrightarrow>
            data (snd (async_unload_entry unload_ok hass)) DOMAIN = Some empty_data) \<and>
         (\<not> unload_ok \<longrightarrow> snd (async_unload_entry unload_ok hass) = hass)"
  using assms by (simp add: async_unload_entry_def put_data_def)

theorem unload_entry_witness:
  "data hass_started DOMAIN = Some (empty_data\<lparr>attr_config := Some None\<rparr>) \<and>
   empty_data\<lparr>attr_config := Some None\<rparr> \<noteq> empty_data \<and>
   fst (async_unload_entry True hass_started) = Inr True \<and>
   data (snd (async_unload_entry True hass_started)) DOMAIN = Some empty_data \<and>
   fst (async_unload_entry False hass_started) = Inr False \<and>
   snd (async_unload_entry False hass_started) = hass_started"
proof -
  have h: "data hass_started DOMAIN = Some (empty_data\<lparr>attr_config := Some None\<rparr>)"
    by (simp add: hass_started_def async_setup_def hass_empty_def Let_def)
  from h unload_entry [OF h, of True] unload_entry [OF h, of False]
  show ?thesis
    by (simp add: empty_data_def)
qed

section \<open>Setting up a config entry\<close>

subsection \<open>The loop over the devices\<close>

lemma prepare_coordinators_Cons:
  "prepare_coordinators refresh (dev # rest) cs =
     (if caught (fst (refresh (TPLinkDataUpdateCoordinator dev)))
      then prepare_coordinators refresh rest
             (cs(device_id dev \<mapsto> snd (refresh (TPLinkDataUpdateCoordinator dev))))
      else (fst (refresh (TPLinkDataUpdateCoordinator dev)),
            cs(device_id dev \<mapsto> snd (refresh (TPLinkDataUpdateCoordinator dev)))))"
  by (simp add: Let_def caught_def
      split: option.splits py_exception.splits sdk_exception.splits)

lemma not_caught_raised: "\<not> caught raised \<Longrightarrow> raised \<noteq> None"
  by (cases raised) (simp_all add: caught_def)

lemma prepare_coordinators_dom:
  "fst (prepare_coordinators refresh devs cs) = None \<Longrightarrow>
   dom (snd (prepare_coordinators refresh devs cs)) = dom cs \<union> device_id ` set devs"
proof (induction devs arbitrary: cs)
  case Nil
  then show ?case by simp
next
  case (Cons dev rest)
  show ?case
  proof (cases "caught (fst (refresh (TPLinkDataUpdateCoordinator dev)))")
    case True
    with Cons.prems Cons.IH [of "cs(device_id dev \<mapsto> snd (refresh (TPLinkDataUpdateCoordinator dev)))"]
    show ?thesis
      by (simp only: prepare_coordinators_Cons if_True) auto
  next
    case False
    with Cons.prems not_caught_raised [OF False] show ?thesis
      by (simp only: prepare_coordinators_Cons if_False fst_conv)
  qed
qed

lemma prepare_coordinators_stored:
  "snd (prepare_coordinators refresh devs cs) k = Some c \<Longrightarrow>
   cs k = Some c \<or>
   (\<exists>d\<in>set devs. device_id d = k \<and> c = snd (refresh (TPLinkDataUpdateCoordinator d)))"
proof (induction devs arbitrary: cs)
  case Nil
  then show ?case by simp
next
  case (Cons dev rest)
  show ?case
  proof (cases "caught (fst (refresh (TPLinkDataUpdateCoordinator dev)))")
    case True
    with Cons.prems
    have "snd (prepare_coordinators refresh rest
            (cs(device_id dev \<mapsto> snd (refresh (TPLinkDataUpdateCoordinator dev))))) k = Some c"
      by (simp only: prepare_coordinators_Cons if_True)
    from Cons.IH [OF this] show ?thesis
      by (auto split: if_splits)
  next
    case False
    with Cons.prems show ?thesis
      by (auto simp only: prepare_coordinators_Cons if_False snd_conv fun_upd_apply list.set
          split: if_splits)
  qed
qed

lemma prepare_coordinators_keeps:
  "k \<notin> device_id ` set devs \<Longrightarrow> snd (prepare_coordinators refresh devs cs) k = cs k"
proof (induction devs arbitrary: cs)
  case Nil
  then show ?case by simp
next
  case (Cons dev rest)
  then show ?case
    by (simp add: prepare_coordinators_Cons del: prepare_coordinators.simps)
qed

lemma prepare_coordinators_distinct:
  "fst (prepare_coordinators refresh devs cs) = None \<Longrightarrow> distinct (map device_id devs) \<Longrightarrow>
   d \<in> set devs \<Longrightarrow>
   snd (prepare_coordinators refresh devs cs) (device_id d) =
     Some (snd (refresh (TPLinkDataUpdateCoordinator d)))"
proof (induction devs arbitrary: cs)
  case Nil
  then show ?case by simp
next
  case (Cons dev rest)
  have c: "caught (fst (refresh (TPLinkDataUpdateCoordinator dev)))"
    using Cons.prems(1) not_caught_raised
    by (fastforce simp add: prepare_coordinators_Cons simp del: prepare_coordinators.simps
        split: if_splits)
  show ?case
  proof (cases "d = dev")
    case True
    with Cons.prems(2) have "device_id d \<notin> device_id ` set rest" by auto
    from prepare_coordinators_keeps [OF this] True c show ?thesis
      by (simp add: prepare_coordinators_Cons del: prepare_coordinators.simps)
  next
    case False
    with Cons c show ?thesis
      by (simp add: prepare_coordinators_Cons del: prepare_coordinators.simps)
  qed
qed

lemma prepare_coordinators_continues:
  "\<forall>d\<in>set devs. caught (fst (refresh (TPLinkDataUpdateCoordinator d))) \<Longrightarrow>
   fst (prepare_coordinators refresh devs cs) = None"
proof (induction devs arbitrary: cs)
  case Nil
  then show ?case by simp
next
  case (Cons dev rest)
  then show ?case
    by (simp add: prepare_coordinators_Cons del: prepare_coordinators.simps)
qed


lemma caught_iff:
  "caught raised \<longleftrightarrow> raised = None \<or> (\<exists>m. raised = Some (Sdk (SmartDeviceException m)))"
  by (auto simp: caught_def split: option.splits py_exception.splits sdk_exception.splits)

lemma static_devices_None:
  "static_devices E None = Inr static \<Longrightarrow> lights static = [] \<and> switches static = []"
  by (auto simp: static_devices_def)

lemma device_registry_update_entry_from_config [simp]:
  "device_registry (update_entry_from_config hass_data entry hass) = device_registry hass"
  "data (update_entry_from_config hass_data entry hass) = data hass"
  "setup_platforms (update_entry_from_config hass_data entry hass) = setup_platforms hass"
  by (simp_all add: update_entry_from_config_def Let_def split: option.splits)

subsection \<open>The function\<close>

lemma async_setup_entry_unfold:
  assumes "data hass DOMAIN = Some hass_data"
    and "static_devices E (select_config_data hass_data entry) = Inr static"
    and "discovered_devices E (select_config_data hass_data entry) static
           (length (async_entries_for_config_entry (device_registry hass) (entry_id entry))) =
         Inr discovered"
  shows "async_setup_entry E hass entry =
     (let hass1 = update_entry_from_config hass_data entry hass;
          hass_data1 = hass_data\<lparr>unavailable_devices := Some [],
                                 conf_light := Some (lights static @ lights discovered),
                                 conf_switch := Some (switches static @ switches discovered)\<rparr>;
          r = prepare_coordinators (async_refresh E) (setup_devices static discovered) Map.empty;
          hass2 = put_data hass1 (hass_data1\<lparr>coordinators := Some (snd r)\<rparr>)
      in case fst r of
           Some ex \<Rightarrow> (Inl ex, hass2)
         | None \<Rightarrow> (Inr True, hass2\<lparr>setup_platforms := setup_platforms hass2 @ [entry_id entry]\<rparr>))"
proof (cases "select_config_data hass_data entry")
  case None
  with assms(2) have "lights static = []" "switches static = []"
    using static_devices_None by auto
  with assms None show ?thesis
    by (simp add: async_setup_entry_def Let_def setup_devices_def split: prod.splits option.splits)
next
  case (Some conf)
  with assms show ?thesis
    by (simp add: async_setup_entry_def Let_def setup_devices_def split: prod.splits option.splits)
qed

lemma async_setup_entry_returns:
  assumes "async_setup_entry E hass entry = (Inr ok, hass')"
  shows "\<exists>hass_data static discovered.
           data hass DOMAIN = Some hass_data \<and>
           static_devices E (select_config_data hass_data entry) = Inr static \<and>
           discovered_devices E (select_config_data hass_data entry) static
             (length (async_entries_for_config_entry (device_registry hass) (entry_id entry))) =
           Inr discovered"
  using assms
  by (auto simp: async_setup_entry_def Let_def split: option.splits sum.splits prod.splits)


lemma async_setup_entry_all_caught:
  assumes "data hass DOMAIN = Some hass_data"
    and "static_devices E (select_config_data hass_data entry) = Inr static"
    and "discovered_devices E (select_config_data hass_data entry) static
           (length (async_entries_for_config_entry (device_registry hass) (entry_id entry))) =
         Inr discovered"
    and "\<forall>d\<in>set (setup_devices static discovered).
           fst (async_refresh E (TPLinkDataUpdateCoordinator d)) = None \<or>
           (\<exists>m. fst (async_refresh E (TPLinkDataUpdateCoordinator d)) =
                  Some (Sdk (SmartDeviceException m)))"
  shows "fst (async_setup_entry E hass entry) = Inr True \<and>
         setup_platforms (snd (async_setup_entry E hass entry)) =
           setup_platforms hass @ [entry_id entry] \<and>
         (\<exists>hass_data' cs.
            data (snd (async_setup_entry E hass entry)) DOMAIN = Some hass_data' \<and>
            coordinators hass_data' = Some cs \<and>
            dom cs = device_id ` set (setup_devices static discovered))"
proof -
  let ?r = "prepare_coordinators (async_refresh E) (setup_devices static discovered) Map.empty"
  from assms(4) have none: "fst ?r = None"
    by (intro prepare_coordinators_continues) (simp add: caught_iff)
  from prepare_coordinators_dom [OF none] none show ?thesis
    by (simp add: async_setup_entry_unfold [OF assms(1-3)] Let_def put_data_def)
qed


lemma entry_legacy_id: "entry_id entry_legacy = 1"
  by (simp add: entry_legacy_def)

lemma entry_legacy_unique_id: "unique_id entry_legacy = Some DOMAIN"
  by (simp add: entry_legacy_def)

lemma entry_legacy_is_legacy: "is_legacy_entry entry_legacy"
  by (simp add: is_legacy_entry_def entry_legacy_def)

lemma hass_started_data:
  "data hass_started DOMAIN = Some (empty_data\<lparr>attr_config := Some None\<rparr>)"
  by (simp add: hass_started_def async_setup_def hass_empty_def Let_def)

lemma hass_started_fields:
  "device_registry hass_started = []" "setup_platforms hass_started = []"
  by (simp_all add: hass_started_def async_setup_def hass_empty_def Let_def)

lemma select_config_data_started:
  "select_config_data (empty_data\<lparr>attr_config := Some None\<rparr>) entry_legacy = None"
  by (simp add: select_config_data_def empty_data_def entry_legacy_def)

lemma prepare_coordinators_lookup:
  "fst (prepare_coordinators refresh devs cs) = None \<Longrightarrow>
   snd (prepare_coordinators refresh devs cs) k =
     (if filter (\<lambda>d. device_id d = k) devs = [] then cs k
      else Some (snd (refresh (TPLinkDataUpdateCoordinator (last_with_id devs k)))))"
proof (induction devs arbitrary: cs)
  case Nil
  then show ?case by simp
next
  case (Cons dev rest)
  have c: "caught (fst (refresh (TPLinkDataUpdateCoordinator dev)))"
    using Cons.prems not_caught_raised
    by (fastforce simp add: prepare_coordinators_Cons simp del: prepare_coordinators.simps
        split: if_splits)
  with Cons.prems have n: "fst (prepare_coordinators refresh rest
      (cs(device_id dev \<mapsto> snd (refresh (TPLinkDataUpdateCoordinator dev))))) = None"
    by (simp add: prepare_coordinators_Cons del: prepare_coordinators.simps)
  note ih = Cons.IH [OF n]
  show ?case
    by (simp add: prepare_coordinators_Cons c ih last_with_id_def
        del: prepare_coordinators.simps)
qed



lemma last_with_id_mem:
  "d \<in> set devs \<Longrightarrow> last_with_id devs (device_id d) \<in> set devs \<and>
     device_id (last_with_id devs (device_id d)) = device_id d"
proof -
  assume "d \<in> set devs"
  then have ne: "filter (\<lambda>d'. device_id d' = device_id d) devs \<noteq> []"
    by (auto simp: filter_empty_conv)
  from last_in_set [OF ne] show ?thesis
    by (auto simp: last_with_id_def)
qed

lemma last_with_id_distinct:
  "distinct (map device_id devs) \<Longrightarrow> d \<in> set devs \<Longrightarrow> last_with_id devs (device_id d) = d"
  using last_with_id_mem [of d devs]
  by (auto simp: distinct_map dest: inj_onD)

lemma new_coordinator:
  "\<lparr>device = d, update_children = True, name = dev_alias d, update_interval = 10\<rparr> =
   TPLinkDataUpdateCoordinator d"
  by (simp add: TPLinkDataUpdateCoordinator_def)

lemma async_setup_entry_state:
  assumes "data hass DOMAIN = Some hass_data"
    and "static_devices E (select_config_data hass_data entry) = Inr static"
    and "discovered_devices E (select_config_data hass_data entry) static
           (length (async_entries_for_config_entry (device_registry hass) (entry_id entry))) =
         Inr discovered"
  shows "\<exists>hass_data'.
     data (snd (async_setup_entry E hass entry)) DOMAIN = Some hass_data' \<and>
     conf_switch hass_data' = Some (switches static @ switches discovered) \<and>
     conf_light hass_data' = Some (lights static @ lights discovered) \<and>
     unavailable_devices hass_data' = Some [] \<and>
     coordinators hass_data' =
       Some (snd (prepare_coordinators (async_refresh E) (setup_devices static discovered)
                    Map.empty)) \<and>
     fst (async_setup_entry E hass entry) =
       (case fst (prepare_coordinators (async_refresh E) (setup_devices static discovered)
                    Map.empty) of
          None \<Rightarrow> Inr True | Some ex \<Rightarrow> Inl ex) \<and>
     setup_platforms (snd (async_setup_entry E hass entry)) =
       (case fst (prepare_coordinators (async_refresh E) (setup_devices static discovered)
                    Map.empty) of
          None \<Rightarrow> setup_platforms hass @ [entry_id entry] | Some ex \<Rightarrow> setup_platforms hass)"
  by (simp add: async_setup_entry_unfold [OF assms] Let_def put_data_def split: option.splits)

lemma scenario_static:
  "static_devices E (select_config_data (empty_data\<lparr>attr_config := Some None\<rparr>) entry_legacy) =
     Inr \<lparr>lights = [], switches = []\<rparr>"
  by (simp add: select_config_data_started static_devices_def)

lemma scenario_discovery:
  "discovered_devices E
     (select_config_data (empty_data\<lparr>attr_config := Some None\<rparr>) entry_legacy) static
     (length (async_entries_for_config_entry (device_registry hass_started)
        (entry_id entry_legacy))) = async_discover_devices E static 0"
  by (simp add: select_config_data_started discovered_devices_def hass_started_fields
      async_entries_for_config_entry_def)

lemma env_fields:
  "async_discover_devices env_online static n = Inr \<lparr>lights = [bulb], switches = [plug]\<rparr>"
  "async_discover_devices env_unreachable static n = Inr \<lparr>lights = [bulb], switches = [plug]\<rparr>"
  "async_discover_devices env_broken static n = Inr \<lparr>lights = [bulb], switches = [plug]\<rparr>"
  "async_discover_devices env_twin static n = Inr \<lparr>lights = [plug_twin], switches = [plug]\<rparr>"
  "async_refresh env_online c = (None, c)"
  "async_refresh env_twin c = (None, c)"
  "async_refresh env_unreachable c =
     (if device_id (device c) = device_id plug
      then (Some (Sdk (SmartDeviceException ''unreachable'')), c) else (None, c))"
  "async_refresh env_broken c =
     (if device_id (device c) = device_id plug
      then (Some (Sdk (OtherException ''timeout'')), c) else (None, c))"
  by (simp_all add: env_online_def env_unreachable_def env_broken_def env_twin_def)

lemma device_ids:
  "device_id plug = ''aa:bb:cc:dd:ee:ff''" "device_id bulb = ''11:22:33:44:55:66''"
  "device_id plug_twin = ''aa:bb:cc:dd:ee:ff''" "plug_twin \<noteq> plug" "plug \<noteq> plug_twin"
  by (simp_all add: plug_def bulb_def plug_twin_def)

text \<open>
  C7, as amended. When \<open>async_setup_entry\<close> returns, the switches and the lights stored
  for the domain are the static devices followed by the discovered ones, and the
  coordinators dictionary has exactly the device identifiers of \<^verbatim>\<open>switches + lights\<close> as
  its keys. Under the identifier of each device it holds a coordinator that polls every
  10 seconds and is named after its device, as its first refresh left it: the coordinator
  of the last device of the list with that identifier, a device later in the list
  replacing the coordinator of an earlier one with the same identifier. So when the
  identifiers are distinct every device has its own coordinator under its identifier and
  there are as many coordinators as devices. The platform setup of the entry has then
  been handed to the host and the result is \<^verbatim>\<open>True\<close>.
\<close>

theorem setup_entry_coordinators:
  assumes "async_setup_entry E hass entry = (Inr ok, hass')"
  shows "\<exists>hass_data static discovered hass_data' cs.
           data hass DOMAIN = Some hass_data \<and>
           static_devices E (select_config_data hass_data entry) = Inr static \<and>
           discovered_devices E (select_config_data hass_data entry) static
             (length (async_entries_for_config_entry (device_registry hass) (entry_id entry))) =
             Inr discovered \<and>
           data hass' DOMAIN = Some hass_data' \<and>
           conf_switch hass_data' = Some (switches static @ switches discovered) \<and>
           conf_light hass_data' = Some (lights static @ lights discovered) \<and>
           coordinators hass_data' = Some cs \<and>
           dom cs = device_id ` set (setup_devices static discovered) \<and>
           (\<forall>d\<in>set (setup_devices static discovered).
              cs (device_id d) =
                Some (snd (async_refresh E
                  \<lparr>device = last_with_id (setup_devices static discovered) (device_id d),
                   update_children = True,
                   name = dev_alias (last_with_id (setup_devices static discovered) (device_id d)),
                   update_interval = 10\<rparr>))) \<and>
           (distinct (map device_id (setup_devices static discovered)) \<longrightarrow>
              (\<forall>d\<in>set (setup_devices static discovered).
                 cs (device_id d) =
                   Some (snd (async_refresh E
                     \<lparr>device = d, update_children = True, name = dev_alias d,
                      update_interval = 10\<rparr>))) \<and>
              card (dom cs) = length (setup_devices static discovered)) \<and>
           ok \<and> setup_platforms hass' = setup_platforms hass @ [entry_id entry]"
proof -
  from async_setup_entry_returns [OF assms] obtain hass_data static discovered where
    h: "data hass DOMAIN = Some hass_data"
      "static_devices E (select_config_data hass_data entry) = Inr static"
      "discovered_devices E (select_config_data hass_data entry) static
         (length (async_entries_for_config_entry (device_registry hass) (entry_id entry))) =
       Inr discovered"
    by blast
  let ?devs = "setup_devices static discovered"
  let ?r = "prepare_coordinators (async_refresh E) ?devs Map.empty"
  from async_setup_entry_state [OF h] obtain hass_data' where
    s: "data (snd (async_setup_entry E hass entry)) DOMAIN = Some hass_data'"
      "conf_switch hass_data' = Some (switches static @ switches discovered)"
      "conf_light hass_data' = Some (lights static @ lights discovered)"
      "coordinators hass_data' = Some (snd ?r)"
      "fst (async_setup_entry E hass entry) =
         (case fst ?r of None \<Rightarrow> Inr True | Some ex \<Rightarrow> Inl ex)"
      "setup_platforms (snd (async_setup_entry E hass entry)) =
         (case fst ?r of None \<Rightarrow> setup_platforms hass @ [entry_id entry]
          | Some ex \<Rightarrow> setup_platforms hass)"
    by blast
  from assms s(5) have none: "fst ?r = None"
    by (cases "fst ?r") simp_all
  from assms s(5) none have ok: "ok" by simp
  from assms s(1) have d: "data hass' DOMAIN = Some hass_data'" by simp
  from assms s(6) none have sp: "setup_platforms hass' = setup_platforms hass @ [entry_id entry]"
    by simp
  have dom: "dom (snd ?r) = device_id ` set ?devs"
    using prepare_coordinators_dom [OF none] by simp
  have look: "snd ?r (device_id d) =
      Some (snd (async_refresh E
        \<lparr>device = last_with_id ?devs (device_id d), update_children = True,
         name = dev_alias (last_with_id ?devs (device_id d)), update_interval = 10\<rparr>))"
    if "d \<in> set ?devs" for d
  proof -
    from that have "filter (\<lambda>d'. device_id d' = device_id d) ?devs \<noteq> []"
      by (auto simp: filter_empty_conv)
    with prepare_coordinators_lookup [OF none, of "device_id d"] show ?thesis
      by (simp add: new_coordinator)
  qed
  have dist: "(\<forall>d\<in>set ?devs.
         snd ?r (device_id d) =
           Some (snd (async_refresh E
             \<lparr>device = d, update_children = True, name = dev_alias d,
              update_interval = 10\<rparr>))) \<and>
      card (dom (snd ?r)) = length ?devs"
    if dd: "distinct (map device_id ?devs)"
  proof -
    have "card (device_id ` set ?devs) = length ?devs"
      using dd distinct_card [of "map device_id ?devs"] by simp
    with look last_with_id_distinct [OF dd] dom show ?thesis
      by simp
  qed
  from h d s(2,3,4) dom look dist ok sp show ?thesis
    by blast
qed

theorem setup_entry_coordinators_witness:
  "\<exists>hass_data' cs.
     fst (async_setup_entry env_online hass_started entry_legacy) = Inr True \<and>
     data (snd (async_setup_entry env_online hass_started entry_legacy)) DOMAIN =
       Some hass_data' \<and>
     conf_switch hass_data' = Some [plug] \<and> conf_light hass_data' = Some [bulb] \<and>
     coordinators hass_data' = Some cs \<and>
     cs ''aa:bb:cc:dd:ee:ff'' =
       Some \<lparr>device = plug, update_children = True, name = ''My Plug'', update_interval = 10\<rparr> \<and>
     cs ''11:22:33:44:55:66'' =
       Some \<lparr>device = bulb, update_children = True, name = ''My Bulb'', update_interval = 10\<rparr> \<and>
     card (dom cs) = 2 \<and>
     setup_platforms (snd (async_setup_entry env_online hass_started entry_legacy)) = [1]"
proof -
  let ?static = "\<lparr>lights = [], switches = []\<rparr>"
  let ?discovered = "\<lparr>lights = [bulb], switches = [plug]\<rparr>"
  note d = scenario_discovery [of env_online, unfolded env_fields]
  have t: "fst (async_setup_entry env_online hass_started entry_legacy) = Inr True"
    using async_setup_entry_state [OF hass_started_data scenario_static d]
    by (auto simp: setup_devices_def env_fields Let_def)
  then have e: "async_setup_entry env_online hass_started entry_legacy =
      (Inr True, snd (async_setup_entry env_online hass_started entry_legacy))"
    by (simp add: prod_eq_iff)
  have ids: "distinct (map device_id (setup_devices ?static ?discovered))"
    by (simp add: setup_devices_def device_ids)
  have names: "dev_alias plug = ''My Plug''" "dev_alias bulb = ''My Bulb''"
    by (simp_all add: plug_def bulb_def)
  from setup_entry_coordinators [OF e] obtain hass_data static discovered hass_data' cs where
    h: "data hass_started DOMAIN = Some hass_data"
      "static_devices env_online (select_config_data hass_data entry_legacy) = Inr static"
      "discovered_devices env_online (select_config_data hass_data entry_legacy) static
         (length (async_entries_for_config_entry (device_registry hass_started)
            (entry_id entry_legacy))) = Inr discovered"
    and s: "data (snd (async_setup_entry env_online hass_started entry_legacy)) DOMAIN =
        Some hass_data'"
      "conf_switch hass_data' = Some (switches static @ switches discovered)"
      "conf_light hass_data' = Some (lights static @ lights discovered)"
      "coordinators hass_data' = Some cs"
    and c: "distinct (map device_id (setup_devices static discovered)) \<longrightarrow>
        (\<forall>d\<in>set (setup_devices static discovered).
           cs (device_id d) =
             Some (snd (async_refresh env_online
               \<lparr>device = d, update_children = True, name = dev_alias d,
                update_interval = 10\<rparr>))) \<and>
        card (dom cs) = length (setup_devices static discovered)"
    and p: "setup_platforms (snd (async_setup_entry env_online hass_started entry_legacy)) =
        setup_platforms hass_started @ [entry_id entry_legacy]"
    by blast
  from h(1) have hd: "hass_data = empty_data\<lparr>attr_config := Some None\<rparr>"
    by (simp add: hass_started_data)
  from h(2) have st: "static = ?static"
    by (simp add: hd scenario_static)
  from h(3) have di: "discovered = ?discovered"
    by (simp add: hd scenario_discovery env_fields)
  from c ids have c': "cs (device_id plug) =
        Some \<lparr>device = plug, update_children = True, name = dev_alias plug,
              update_interval = 10\<rparr>"
      "cs (device_id bulb) =
        Some \<lparr>device = bulb, update_children = True, name = dev_alias bulb,
              update_interval = 10\<rparr>"
      "card (dom cs) = 2"
    by (simp_all add: st di setup_devices_def env_fields)
  from s(2,3) have l: "conf_switch hass_data' = Some [plug]" "conf_light hass_data' = Some [bulb]"
    by (simp_all add: st di)
  from p have p': "setup_platforms (snd (async_setup_entry env_online hass_started entry_legacy)) =
      [1]"
    by (simp add: hass_started_fields entry_legacy_id)
  from t s(1,4) l c' p' show ?thesis
    by (simp add: device_ids names)
qed

text \<open>
  The claim as stated, exactly one coordinator for every device, fails when two devices
  have the same identifier: a switch and a light with the identifier of the plug end with
  one coordinator, the light's, and the switch has none of its own.
\<close>

theorem setup_entry_twin_counterexample:
  "\<exists>hass_data' cs.
     fst (async_setup_entry env_twin hass_started entry_legacy) = Inr True \<and>
     data (snd (async_setup_entry env_twin hass_started entry_legacy)) DOMAIN =
       Some hass_data' \<and>
     conf_switch hass_data' = Some [plug] \<and> conf_light hass_data' = Some [plug_twin] \<and>
     device_id plug = device_id plug_twin \<and> plug \<noteq> plug_twin \<and>
     coordinators hass_data' = Some cs \<and>
     dom cs = {device_id plug} \<and> card (dom cs) = 1 \<and>
     cs (device_id plug) =
       Some \<lparr>device = plug_twin, update_children = True, name = dev_alias plug_twin,
             update_interval = 10\<rparr> \<and>
     cs (device_id plug) \<noteq>
       Some \<lparr>device = plug, update_children = True, name = dev_alias plug,
             update_interval = 10\<rparr>"
proof -
  note d = scenario_discovery [of env_twin, unfolded env_fields]
  from async_setup_entry_state [OF hass_started_data scenario_static d]
  show ?thesis
    by (auto simp: setup_devices_def env_fields device_ids TPLinkDataUpdateCoordinator_def
        Let_def)
qed




section \<open>The migration\<close>

subsection \<open>The store of config entries\<close>





lemma ensure_device_entry_cases:
  "ensure_device_entry d entries = entries \<and>
     (\<exists>e\<in>set entries. unique_id e = Some (fst d)) \<or>
   ensure_device_entry d entries =
     entries @ [device_config_entry (new_entry_id entries) (fst d) (snd d)] \<and>
     (\<forall>e\<in>set entries. unique_id e \<noteq> Some (fst d))"
proof (cases "find (\<lambda>e. unique_id e = Some (fst d)) entries")
  case None
  then have "\<forall>e\<in>set entries. unique_id e \<noteq> Some (fst d)"
    by (simp add: find_None_iff)
  moreover from None have "ensure_device_entry d entries =
      entries @ [device_config_entry (new_entry_id entries) (fst d) (snd d)]"
    by (simp add: ensure_device_entry_def)
  ultimately show ?thesis by blast
next
  case (Some existing)
  then have "existing \<in> set entries" "unique_id existing = Some (fst d)"
    by (auto simp: find_Some_iff)
  with Some show ?thesis
    by (auto simp: ensure_device_entry_def)
qed

lemma ensure_device_entry_prefix: "\<exists>added. ensure_device_entry d entries = entries @ added"
  using ensure_device_entry_cases [of d entries] by auto

lemma ensure_device_entries_prefix:
  "\<exists>added. ensure_device_entries discovered entries = entries @ added"
  unfolding ensure_device_entries_def
proof (induction discovered arbitrary: entries)
  case Nil
  then show ?case by simp
next
  case (Cons d ds)
  from ensure_device_entry_prefix obtain a where a: "ensure_device_entry d entries = entries @ a"
    by blast
  from Cons [of "entries @ a"] obtain b where
    "fold ensure_device_entry ds (entries @ a) = (entries @ a) @ b" by blast
  with a show ?case by simp
qed



lemma ensure_device_entry_new:
  "e \<in> set (ensure_device_entry d entries) \<Longrightarrow> e \<notin> set entries \<Longrightarrow>
   unique_id e = Some (fst d) \<and> entry_data e = [(CONF_HOST, VStr (snd d))]"
  using ensure_device_entry_cases [of d entries]
  by (auto simp: device_config_entry_def)

lemma ensure_device_entries_new:
  "e \<in> set (ensure_device_entries discovered entries) \<Longrightarrow> e \<notin> set entries \<Longrightarrow>
   \<exists>d\<in>set discovered. unique_id e = Some (fst d) \<and> entry_data e = [(CONF_HOST, VStr (snd d))]"
  unfolding ensure_device_entries_def
proof (induction discovered arbitrary: entries)
  case Nil
  then show ?case by simp
next
  case (Cons d ds)
  show ?case
  proof (cases "e \<in> set (ensure_device_entry d entries)")
    case True
    from ensure_device_entry_new [OF True Cons.prems(2)] show ?thesis by simp
  next
    case False
    from Cons.IH [OF _ False] Cons.prems(1) show ?thesis by simp
  qed
qed







lemma find_legacy:
  "find is_legacy_entry entries = Some legacy \<Longrightarrow>
   legacy \<in> set entries \<and> unique_id legacy = Some DOMAIN \<and>
   map_of (entry_data legacy) CONF_HOST = None"
  by (auto simp: find_Some_iff is_legacy_entry_def)

subsection \<open>The state after the setup, and the cleanup\<close>

lemma setup_discovered_fields:
  "config_entries (setup_discovered parse delay discovered hass) =
     ensure_device_entries discovered (config_entries hass)"
  "find is_legacy_entry (config_entries hass) = Some legacy \<Longrightarrow>
   device_registry (setup_discovered parse delay discovered hass) =
     map (migrate_device (ensure_device_entries discovered (config_entries hass))
            (map fst discovered) (entry_id legacy)) (device_registry hass)"
  "find is_legacy_entry (config_entries hass) = Some legacy \<Longrightarrow>
   entity_registry (setup_discovered parse delay discovered hass) =
     map (migrate_entity parse (ensure_device_entries discovered (config_entries hass))
            (map fst discovered) (entry_id legacy)) (entity_registry hass)"
  "find is_legacy_entry (config_entries hass) = Some legacy \<Longrightarrow>
   call_later (setup_discovered parse delay discovered hass) =
     call_later hass @ [(now hass + delay, entry_id legacy)]"
  "now (setup_discovered parse delay discovered hass) = now hass"
  by (simp_all add: setup_discovered_def migrate_legacy_entry_def Let_def split: option.splits)

lemma setup_discovered_entities_length:
  "length (entity_registry (setup_discovered parse delay discovered hass)) =
   length (entity_registry hass)"
  by (simp add: setup_discovered_def migrate_legacy_entry_def Let_def split: option.splits)

lemma cleanup_legacy_entry_fields:
  "entity_registry (cleanup_legacy_entry legacy_entry_id hass) = entity_registry hass"
  "config_entries (cleanup_legacy_entry legacy_entry_id hass) =
     (if filter (\<lambda>e. reg_config_entry_id e = Some legacy_entry_id) (entity_registry hass) = []
      then filter (\<lambda>e. entry_id e \<noteq> legacy_entry_id) (config_entries hass)
      else config_entries hass)"
  by (simp_all add: cleanup_legacy_entry_def)

lemma fire_single_timer:
  assumes "call_later hass = [(due, legacy_entry_id)]"
  shows "config_entries (async_fire_time_changed t hass) =
     (if due \<le> t \<and>
         filter (\<lambda>e. reg_config_entry_id e = Some legacy_entry_id) (entity_registry hass) = []
      then filter (\<lambda>e. entry_id e \<noteq> legacy_entry_id) (config_entries hass)
      else config_entries hass)"
  using assms by (simp add: async_fire_time_changed_def Let_def cleanup_legacy_entry_fields)

subsection \<open>The test's scenarios, evaluated\<close>

lemma scenario_entries:
  "find is_legacy_entry (config_entries hass_legacy) = Some entry_legacy"
  "find is_legacy_entry (config_entries hass_legacy_others) = Some entry_legacy"
  "config_entries hass_legacy = [entry_legacy]"
  "config_entries hass_legacy_others = [entry_legacy]"
  "call_later hass_legacy = []" "call_later hass_legacy_others = []"
  "now hass_legacy = 0" "now hass_legacy_others = 0"
  "device_registry hass_legacy = [registry_device]"
  "device_registry hass_legacy_others = [registry_device]"
  "entity_registry hass_legacy = [light_entity, power_sensor_entity]"
  "entity_registry hass_legacy_others =
     [light_entity, power_sensor_entity, ignored_entity, garbage_entity]"
  by (simp_all add: hass_legacy_others_def hass_legacy_def is_legacy_entry_def entry_legacy_def
      hass_started_def async_setup_def hass_empty_def Let_def)

lemma scenario_distinct:
  "distinct (map entry_id (config_entries hass_legacy))"
  "distinct (map entry_id (config_entries hass_legacy_others))"
  "\<forall>e\<in>set (config_entries hass_legacy). unique_id e = Some DOMAIN \<longrightarrow> e = entry_legacy"
  "\<forall>e\<in>set (config_entries hass_legacy_others). unique_id e = Some DOMAIN \<longrightarrow> e = entry_legacy"
  by (simp_all add: scenario_entries)

lemma scenario_discovered: "DOMAIN \<notin> fst ` set discovered_plug"
  by (simp add: discovered_plug_def DOMAIN_def)

lemma scenario_new_entries:
  "ensure_device_entries discovered_plug [entry_legacy] =
     [entry_legacy, device_config_entry 2 ''aa:bb:cc:dd:ee:ff'' ''127.0.0.1'']"
  by (simp add: ensure_device_entries_def ensure_device_entry_def discovered_plug_def
      entry_legacy_def DOMAIN_def new_entry_id_def numeral_2_eq_2)

lemma scenario_entry_for:
  "entry_for [entry_legacy, device_config_entry 2 ''aa:bb:cc:dd:ee:ff'' ''127.0.0.1'']
     ''aa:bb:cc:dd:ee:ff'' = Some 2"
  by (simp add: entry_for_def entry_legacy_def device_config_entry_def DOMAIN_def)

lemma scenario_parse:
  "mac_prefix ''aa:bb:cc:dd:ee:ff'' = Some ''aa:bb:cc:dd:ee:ff''"
  "mac_prefix ''aa:bb:cc:dd:ee:ff_sensor'' = Some ''aa:bb:cc:dd:ee:ff''"
  "mac_prefix ''00:00:00:00:00:00_sensor'' = Some ''00:00:00:00:00:00''"
  "mac_prefix ''garbage'' = None"
  by (simp_all add: mac_prefix_def)

lemma scenario_migrate_entity:
  "migrate_entity mac_prefix
     [entry_legacy, device_config_entry 2 ''aa:bb:cc:dd:ee:ff'' ''127.0.0.1'']
     (map fst discovered_plug) (entry_id entry_legacy) light_entity =
   light_entity\<lparr>reg_config_entry_id := Some 2\<rparr>"
  "migrate_entity mac_prefix
     [entry_legacy, device_config_entry 2 ''aa:bb:cc:dd:ee:ff'' ''127.0.0.1'']
     (map fst discovered_plug) (entry_id entry_legacy) power_sensor_entity =
   power_sensor_entity\<lparr>reg_config_entry_id := Some 2\<rparr>"
  "migrate_entity mac_prefix
     [entry_legacy, device_config_entry 2 ''aa:bb:cc:dd:ee:ff'' ''127.0.0.1'']
     (map fst discovered_plug) (entry_id entry_legacy) ignored_entity = ignored_entity"
  "migrate_entity mac_prefix
     [entry_legacy, device_config_entry 2 ''aa:bb:cc:dd:ee:ff'' ''127.0.0.1'']
     (map fst discovered_plug) (entry_id entry_legacy) garbage_entity = garbage_entity"
  by (simp_all add: migrate_entity_def light_entity_def power_sensor_entity_def
      ignored_entity_def garbage_entity_def scenario_parse scenario_entry_for
      discovered_plug_def entry_legacy_id)

lemma scenario_entities:
  "entity_registry (setup_discovered mac_prefix 60 discovered_plug hass_legacy) =
     [light_entity\<lparr>reg_config_entry_id := Some 2\<rparr>,
      power_sensor_entity\<lparr>reg_config_entry_id := Some 2\<rparr>]"
  "entity_registry (setup_discovered mac_prefix 60 discovered_plug hass_legacy_others) =
     [light_entity\<lparr>reg_config_entry_id := Some 2\<rparr>,
      power_sensor_entity\<lparr>reg_config_entry_id := Some 2\<rparr>, ignored_entity, garbage_entity]"
  by (simp_all add: setup_discovered_fields(3) [OF scenario_entries(1)]
      setup_discovered_fields(3) [OF scenario_entries(2)] scenario_entries scenario_new_entries
      scenario_migrate_entity)

lemma scenario_migrate_device:
  "migrate_device [entry_legacy, device_config_entry 2 ''aa:bb:cc:dd:ee:ff'' ''127.0.0.1'']
     (map fst discovered_plug) (entry_id entry_legacy) registry_device =
   registry_device\<lparr>dev_config_entries := {2}\<rparr>"
  by (simp add: migrate_device_def registry_device_def discovered_macs_def device_macs_def
      scenario_entry_for discovered_plug_def entry_legacy_id List.map_filter_simps)

lemma scenario_devices:
  "device_registry (setup_discovered mac_prefix 60 discovered_plug hass_legacy) =
     [registry_device\<lparr>dev_config_entries := {2}\<rparr>]"
  "device_registry (setup_discovered mac_prefix 60 discovered_plug hass_legacy_others) =
     [registry_device\<lparr>dev_config_entries := {2}\<rparr>]"
  by (simp_all add: setup_discovered_fields(2) [OF scenario_entries(1)]
      setup_discovered_fields(2) [OF scenario_entries(2)] scenario_entries
      scenario_new_entries scenario_migrate_device)

lemma scenario_config_entries:
  "config_entries (setup_discovered mac_prefix 60 discovered_plug hass_legacy) =
     [entry_legacy, device_config_entry 2 ''aa:bb:cc:dd:ee:ff'' ''127.0.0.1'']"
  "config_entries (setup_discovered mac_prefix 60 discovered_plug hass_legacy_others) =
     [entry_legacy, device_config_entry 2 ''aa:bb:cc:dd:ee:ff'' ''127.0.0.1'']"
  by (simp_all add: setup_discovered_fields(1) scenario_entries scenario_new_entries)

lemma scenario_call_later:
  "call_later (setup_discovered mac_prefix 60 discovered_plug hass_legacy) = [(60, 1)]"
  "call_later (setup_discovered mac_prefix 60 discovered_plug hass_legacy_others) = [(60, 1)]"
  by (simp_all add: setup_discovered_fields(4) [OF scenario_entries(1)]
      setup_discovered_fields(4) [OF scenario_entries(2)] scenario_entries entry_legacy_def)

subsection \<open>Ownership after the migration\<close>





text \<open>
  C2. An entity record whose unique identifier does not parse to the address of a
  discovered device is left as it was, whatever else the setup changes: the registry keeps
  its length and holds the same record at the same place, so a record that was on the
  legacy entry still is.
\<close>

theorem unrecognised_entities_untouched:
  assumes "i < length (entity_registry hass)"
    and "\<forall>mac. parse (reg_unique_id (entity_registry hass ! i)) = Some mac \<longrightarrow>
           mac \<notin> fst ` set discovered"
  shows "length (entity_registry (setup_discovered parse delay discovered hass)) =
           length (entity_registry hass) \<and>
         entity_registry (setup_discovered parse delay discovered hass) ! i =
           entity_registry hass ! i"
  using assms
  by (auto simp: setup_discovered_def migrate_legacy_entry_def migrate_entity_def Let_def
      split: option.splits)

theorem unrecognised_entities_untouched_witness:
  "entity_registry (setup_discovered mac_prefix 60 discovered_plug hass_legacy_others) ! 2 =
     ignored_entity \<and>
   entity_registry (setup_discovered mac_prefix 60 discovered_plug hass_legacy_others) ! 3 =
     garbage_entity \<and>
   reg_config_entry_id ignored_entity = Some (entry_id entry_legacy) \<and>
   reg_config_entry_id garbage_entity = Some (entry_id entry_legacy)"
proof -
  have i: "2 < length (entity_registry hass_legacy_others)"
    "3 < length (entity_registry hass_legacy_others)"
    by (simp_all add: scenario_entries)
  have u2: "\<forall>mac. mac_prefix (reg_unique_id (entity_registry hass_legacy_others ! 2)) = Some mac
              \<longrightarrow> mac \<notin> fst ` set discovered_plug"
    by (simp add: scenario_entries ignored_entity_def light_entity_def scenario_parse
        discovered_plug_def)
  have u3: "\<forall>mac. mac_prefix (reg_unique_id (entity_registry hass_legacy_others ! 3)) = Some mac
              \<longrightarrow> mac \<notin> fst ` set discovered_plug"
    by (simp add: scenario_entries garbage_entity_def light_entity_def scenario_parse
        numeral_3_eq_3)
  from unrecognised_entities_untouched [where parse = mac_prefix and delay = 60
      and discovered = discovered_plug and hass = hass_legacy_others and i = 2, OF i(1) u2]
    unrecognised_entities_untouched [where parse = mac_prefix and delay = 60
      and discovered = discovered_plug and hass = hass_legacy_others and i = 3, OF i(2) u3]
  show ?thesis
    by (simp add: scenario_entries numeral_3_eq_3 entry_legacy_id ignored_entity_def
        garbage_entity_def light_entity_def)
qed

text \<open>
  C6. Every config entry that the setup of the discovered devices adds to the store,
  migrating or not, has the MAC address of a discovered device as its unique identifier and
  that device's IP address as its host field, and is not a legacy entry; the legacy entry,
  when there is one, has the domain as its unique identifier and no host field, and is
  still in the store afterwards.
\<close>

theorem device_entries_created:
  assumes "e \<in> set (config_entries (setup_discovered parse delay discovered hass))"
    and "e \<notin> set (config_entries hass)"
  shows "(\<exists>mac ip. (mac, ip) \<in> set discovered \<and> unique_id e = Some mac \<and>
            map_of (entry_data e) CONF_HOST = Some (VStr ip)) \<and>
         \<not> is_legacy_entry e \<and>
         (\<forall>legacy. find is_legacy_entry (config_entries hass) = Some legacy \<longrightarrow>
            unique_id legacy = Some DOMAIN \<and> map_of (entry_data legacy) CONF_HOST = None \<and>
            legacy \<in> set (config_entries (setup_discovered parse delay discovered hass)))"
proof -
  from assms ensure_device_entries_new [of e discovered "config_entries hass"]
  obtain d where d: "d \<in> set discovered" "unique_id e = Some (fst d)"
    "entry_data e = [(CONF_HOST, VStr (snd d))]"
    by (auto simp: setup_discovered_fields)
  then have a: "\<exists>mac ip. (mac, ip) \<in> set discovered \<and> unique_id e = Some mac \<and>
            map_of (entry_data e) CONF_HOST = Some (VStr ip)"
    by (cases d) auto
  from d have b: "\<not> is_legacy_entry e"
    by (simp add: is_legacy_entry_def)
  have c: "unique_id legacy = Some DOMAIN \<and> map_of (entry_data legacy) CONF_HOST = None \<and>
      legacy \<in> set (config_entries (setup_discovered parse delay discovered hass))"
    if "find is_legacy_entry (config_entries hass) = Some legacy" for legacy
    using find_legacy [OF that] ensure_device_entries_prefix [of discovered "config_entries hass"]
    by (auto simp: setup_discovered_fields)
  from a b c show ?thesis by blast
qed

theorem device_entries_created_witness:
  "(\<exists>mac ip. (mac, ip) \<in> set discovered_plug \<and>
      unique_id (device_config_entry 2 ''aa:bb:cc:dd:ee:ff'' ''127.0.0.1'') = Some mac \<and>
      map_of (entry_data (device_config_entry 2 ''aa:bb:cc:dd:ee:ff'' ''127.0.0.1'')) CONF_HOST =
        Some (VStr ip)) \<and>
   \<not> is_legacy_entry (device_config_entry 2 ''aa:bb:cc:dd:ee:ff'' ''127.0.0.1'') \<and>
   unique_id entry_legacy = Some DOMAIN \<and> map_of (entry_data entry_legacy) CONF_HOST = None \<and>
   entry_legacy \<in>
     set (config_entries (setup_discovered mac_prefix 60 discovered_plug hass_legacy))"
proof -
  let ?e = "device_config_entry 2 ''aa:bb:cc:dd:ee:ff'' ''127.0.0.1''"
  have a: "?e \<in> set (config_entries (setup_discovered mac_prefix 60 discovered_plug hass_legacy))"
    by (simp add: scenario_config_entries)
  have b: "?e \<notin> set (config_entries hass_legacy)"
    by (simp add: scenario_entries entry_legacy_def device_config_entry_def)
  from device_entries_created [OF a b] scenario_entries(1) show ?thesis
    by blast
qed

subsection \<open>The deferred cleanup\<close>

text \<open>
  C3, as amended. The migration leaves the legacy entry in the store. It is still there
  at any time before the delay has elapsed. Once the delay has elapsed, no entry with the
  domain as unique identifier remains if no entity record references the legacy entry; if
  some entity record still references it, the legacy entry stays.
\<close>

theorem legacy_entry_cleanup:
  assumes legacy: "find is_legacy_entry (config_entries hass) = Some legacy"
    and dist: "distinct (map entry_id (config_entries hass))"
    and macs: "DOMAIN \<notin> fst ` set discovered"
    and only: "\<forall>e\<in>set (config_entries hass). unique_id e = Some DOMAIN \<longrightarrow> e = legacy"
    and timers: "call_later hass = []"
    and hass': "hass' = setup_discovered parse delay discovered hass"
  shows "legacy \<in> set (config_entries hass') \<and>
     (\<forall>t. t < now hass + delay \<longrightarrow>
        legacy \<in> set (config_entries (async_fire_time_changed t hass'))) \<and>
     (\<forall>t. now hass + delay \<le> t \<longrightarrow>
        (filter (\<lambda>e. reg_config_entry_id e = Some (entry_id legacy)) (entity_registry hass') = []
           \<longrightarrow> (\<forall>e\<in>set (config_entries (async_fire_time_changed t hass')).
                  unique_id e \<noteq> Some DOMAIN)) \<and>
        (filter (\<lambda>e. reg_config_entry_id e = Some (entry_id legacy)) (entity_registry hass') \<noteq> []
           \<longrightarrow> legacy \<in> set (config_entries (async_fire_time_changed t hass'))))"
proof -
  let ?es = "ensure_device_entries discovered (config_entries hass)"
  let ?lid = "entry_id legacy"
  note l = find_legacy [OF legacy]
  have es: "config_entries hass' = ?es"
    by (simp add: hass' setup_discovered_fields(1))
  from ensure_device_entries_prefix [of discovered "config_entries hass"] l
  have a: "legacy \<in> set (config_entries hass')"
    by (auto simp: es)
  have cl: "call_later hass' = [(now hass + delay, ?lid)]"
    by (simp add: hass' setup_discovered_fields(4) [OF legacy] timers)
  note fire = fire_single_timer [OF cl]
  have b: "legacy \<in> set (config_entries (async_fire_time_changed t hass'))"
    if "t < now hass + delay" for t
    using that a by (simp add: fire)
  have c: "unique_id e \<noteq> Some DOMAIN"
    if "now hass + delay \<le> t"
      "filter (\<lambda>e. reg_config_entry_id e = Some ?lid) (entity_registry hass') = []"
      "e \<in> set (config_entries (async_fire_time_changed t hass'))" for t e
  proof
    assume u: "unique_id e = Some DOMAIN"
    from that have e: "e \<in> set ?es" "entry_id e \<noteq> ?lid"
      by (simp_all add: fire es)
    show False
    proof (cases "e \<in> set (config_entries hass)")
      case True
      with only u e(2) show False by auto
    next
      case False
      from ensure_device_entries_new [OF e(1) False] u macs show False by auto
    qed
  qed
  have d: "legacy \<in> set (config_entries (async_fire_time_changed t hass'))"
    if "filter (\<lambda>e. reg_config_entry_id e = Some ?lid) (entity_registry hass') \<noteq> []" for t
    using that a by (simp add: fire)
  from a b c d show ?thesis by blast
qed

theorem legacy_entry_cleanup_witness:
  "entry_legacy \<in>
     set (config_entries (setup_discovered mac_prefix 60 discovered_plug hass_legacy)) \<and>
   entry_legacy \<in>
     set (config_entries
            (async_fire_time_changed 59
               (setup_discovered mac_prefix 60 discovered_plug hass_legacy))) \<and>
   filter (\<lambda>e. unique_id e = Some DOMAIN)
     (config_entries
        (async_fire_time_changed 65
           (setup_discovered mac_prefix 60 discovered_plug hass_legacy))) = [] \<and>
   entry_legacy \<in>
     set (config_entries
            (async_fire_time_changed 65
               (setup_discovered mac_prefix 60 discovered_plug hass_legacy_others)))"
proof -
  let ?h = "setup_discovered mac_prefix 60 discovered_plug hass_legacy"
  let ?h' = "setup_discovered mac_prefix 60 discovered_plug hass_legacy_others"
  note a = legacy_entry_cleanup [OF scenario_entries(1) scenario_distinct(1) scenario_discovered
      scenario_distinct(3) scenario_entries(5) refl, of mac_prefix 60]
  note b = legacy_entry_cleanup [OF scenario_entries(2) scenario_distinct(2) scenario_discovered
      scenario_distinct(4) scenario_entries(6) refl, of mac_prefix 60]
  have none: "filter (\<lambda>e. reg_config_entry_id e = Some (entry_id entry_legacy))
      (entity_registry ?h) = []"
    by (simp add: scenario_entities entry_legacy_id light_entity_def power_sensor_entity_def)
  have some: "filter (\<lambda>e. reg_config_entry_id e = Some (entry_id entry_legacy))
      (entity_registry ?h') \<noteq> []"
    by (simp add: scenario_entities entry_legacy_id light_entity_def garbage_entity_def)
  from a have a1: "entry_legacy \<in> set (config_entries ?h)" by blast
  from a have "(59::nat) < now hass_legacy + 60 \<longrightarrow>
      entry_legacy \<in> set (config_entries (async_fire_time_changed 59 ?h))"
    by blast
  then have a2: "entry_legacy \<in> set (config_entries (async_fire_time_changed 59 ?h))"
    by (simp add: scenario_entries)
  from a have "now hass_legacy + 60 \<le> (65::nat) \<longrightarrow>
      (filter (\<lambda>e. reg_config_entry_id e = Some (entry_id entry_legacy)) (entity_registry ?h) = []
       \<longrightarrow> (\<forall>e\<in>set (config_entries (async_fire_time_changed 65 ?h)).
              unique_id e \<noteq> Some DOMAIN))"
    by blast
  with none have "\<forall>e\<in>set (config_entries (async_fire_time_changed 65 ?h)).
      unique_id e \<noteq> Some DOMAIN"
    by (simp add: scenario_entries)
  then have a3: "filter (\<lambda>e. unique_id e = Some DOMAIN)
      (config_entries (async_fire_time_changed 65 ?h)) = []"
    by (simp add: filter_empty_conv)
  from b have "now hass_legacy_others + 60 \<le> (65::nat) \<longrightarrow>
      (filter (\<lambda>e. reg_config_entry_id e = Some (entry_id entry_legacy)) (entity_registry ?h')
         \<noteq> []
       \<longrightarrow> entry_legacy \<in> set (config_entries (async_fire_time_changed 65 ?h')))"
    by blast
  with some have b1: "entry_legacy \<in> set (config_entries (async_fire_time_changed 65 ?h'))"
    by (simp add: scenario_entries)
  from a1 a2 a3 b1 show ?thesis by blast
qed

text \<open>
  The claim as stated, that after the delay no config entry with the domain as unique
  identifier remains, fails in the third scenario of the test, as the test itself asserts
  (line 218).
\<close>

theorem legacy_entry_kept_counterexample:
  "find is_legacy_entry (config_entries hass_legacy_others) = Some entry_legacy \<and>
   \<not> (\<forall>e\<in>set (config_entries
                 (async_fire_time_changed (60 + 5)
                    (setup_discovered mac_prefix 60 discovered_plug hass_legacy_others))).
         unique_id e \<noteq> Some DOMAIN)"
  by (simp add: scenario_entries fire_single_timer [OF scenario_call_later(2)]
      scenario_entities scenario_config_entries entry_legacy_id entry_legacy_unique_id
      entry_legacy_is_legacy garbage_entity_def light_entity_def ignored_entity_def power_sensor_entity_def)

end
